theory Spec2Isabelle
  imports Main
begin

section \<open>JavaScript values and the built-ins the agent relies on\<close>

text \<open>
  The agent (\<^verbatim>\<open>src/vrpc/VrpcAgent.js\<close>) handles parsed JSON documents. A value is
  modelled by \<open>jsvalue\<close>; \<open>undefined\<close> is \<open>None\<close> of \<open>jsvalue option\<close>. Numbers are
  restricted to integers. \<open>JBigInt\<close> stands for the values \<^verbatim>\<open>JSON.stringify\<close> throws
  on. Objects keep their properties in insertion order.
\<close>

datatype jsvalue =
    JNull
  | JBool bool
  | JNum int
  | JStr string
  | JBigInt int
  | JArr "jsvalue list"
  | JObj "(string \<times> jsvalue) list"

type_synonym jsval = "jsvalue option"
type_synonym obj = "(string \<times> jsvalue) list"

datatype exn = Error string | TypeError string | SyntaxError string

fun message :: "exn \<Rightarrow> string" where
  "message (Error m) = m"
| "message (TypeError m) = m"
| "message (SyntaxError m) = m"

text \<open>Property read \<^verbatim>\<open>o.k\<close> and property write \<^verbatim>\<open>o.k = v\<close> on an object's property list.\<close>

definition get_prop :: "string \<Rightarrow> obj \<Rightarrow> jsval" where
  "get_prop k ps = map_of ps k"

fun set_prop :: "string \<Rightarrow> jsvalue \<Rightarrow> obj \<Rightarrow> obj" where
  "set_prop k v [] = [(k, v)]"
| "set_prop k v (p # ps) = (if fst p = k then (k, v) # ps else p # set_prop k v ps)"

text \<open>
  \<^verbatim>\<open>x.k\<close> for an arbitrary value \<open>x\<close> and one of the keys the agent reads (\<^verbatim>\<open>r\<close>,
  \<^verbatim>\<open>e\<close>, \<^verbatim>\<open>_1\<close>): reading from \<open>undefined\<close> or \<open>null\<close> throws a TypeError, reading from
  an object looks the key up, any other value has no such property.
\<close>

fun read_member :: "jsval \<Rightarrow> string \<Rightarrow> exn + jsval" where
  "read_member None k = Inl (TypeError ''Cannot read properties of undefined'')"
| "read_member (Some JNull) k = Inl (TypeError ''Cannot read properties of null'')"
| "read_member (Some (JObj ps)) k = Inr (get_prop k ps)"
| "read_member (Some v) k = Inr None"

text \<open>
  \<^verbatim>\<open>x.k = v\<close> in strict mode (class bodies are strict): a TypeError on \<open>undefined\<close>,
  \<open>null\<close> and primitives; on an array the new property is not an element and is
  invisible to \<^verbatim>\<open>JSON.stringify\<close>, so the array is returned as it was.
\<close>

fun set_member :: "jsval \<Rightarrow> string \<Rightarrow> jsvalue \<Rightarrow> exn + jsvalue" where
  "set_member None k v = Inl (TypeError ''Cannot set properties of undefined'')"
| "set_member (Some JNull) k v = Inl (TypeError ''Cannot set properties of null'')"
| "set_member (Some (JObj ps)) k v = Inr (JObj (set_prop k v ps))"
| "set_member (Some (JArr vs)) k v = Inr (JArr vs)"
| "set_member (Some x) k v = Inl (TypeError ''Cannot create property'')"

text \<open>Truthiness, as tested by \<^verbatim>\<open>if (x)\<close> and \<^verbatim>\<open>!x\<close>.\<close>

fun truthy :: "jsval \<Rightarrow> bool" where
  "truthy None = False"
| "truthy (Some JNull) = False"
| "truthy (Some (JBool b)) = b"
| "truthy (Some (JNum n)) = (n \<noteq> 0)"
| "truthy (Some (JStr s)) = (s \<noteq> [])"
| "truthy (Some (JBigInt n)) = (n \<noteq> 0)"
| "truthy (Some (JArr vs)) = True"
| "truthy (Some (JObj ps)) = True"

text \<open>Decimal digits of a number, for the string conversion of template literals.\<close>

fun string_of_nat :: "nat \<Rightarrow> string" where
  "string_of_nat n =
     (if n < 10 then [''0123456789'' ! n]
      else string_of_nat (n div 10) @ [''0123456789'' ! (n mod 10)])"

declare string_of_nat.simps [simp del]

definition string_of_int :: "int \<Rightarrow> string" where
  "string_of_int i = (if i < 0 then CHR ''-'' # string_of_nat (nat (- i)) else string_of_nat (nat i))"

fun join :: "string \<Rightarrow> string list \<Rightarrow> string" where
  "join sep [] = []"
| "join sep [x] = x"
| "join sep (x # y # ys) = x @ sep @ join sep (y # ys)"

text \<open>
  \<^verbatim>\<open>`${x}`\<close>: the string conversion of a value inside a template literal. An array is
  the comma-joined conversion of its elements, with \<open>null\<close> elements empty.
\<close>

fun js_String :: "jsvalue \<Rightarrow> string" where
  "js_String JNull = ''null''"
| "js_String (JBool b) = (if b then ''true'' else ''false'')"
| "js_String (JNum n) = string_of_int n"
| "js_String (JStr s) = s"
| "js_String (JBigInt n) = string_of_int n"
| "js_String (JArr vs) = join '','' (map (\<lambda>v. if v = JNull then [] else js_String v) vs)"
| "js_String (JObj ps) = ''[object Object]''"

fun tmpl :: "jsval \<Rightarrow> string" where
  "tmpl None = ''undefined''"
| "tmpl (Some v) = js_String v"

text \<open>\<^verbatim>\<open>JSON.stringify\<close> throws exactly on values that contain a BigInt.\<close>

fun serializable :: "jsvalue \<Rightarrow> bool" where
  "serializable (JBigInt n) = False"
| "serializable (JArr vs) = list_all serializable vs"
| "serializable (JObj ps) = list_all serializable (map snd ps)"
| "serializable v = True"

text \<open>
  What is handed to the broker as a message: the JSON text of a value (represented by
  the value it encodes), \<open>null\<close> (clears a retained slot), or a ready-made string.
\<close>

datatype mqtt_message = JsonText jsvalue | NullMessage | Text string

definition JSON_stringify :: "jsvalue \<Rightarrow> exn + mqtt_message" where
  "JSON_stringify v =
     (if serializable v then Inr (JsonText v)
      else Inl (TypeError ''Do not know how to serialize a BigInt''))"

text \<open>\<^verbatim>\<open>s.split('/')\<close> and \<^verbatim>\<open>s.slice(0, -n)\<close>.\<close>

fun js_split :: "char \<Rightarrow> string \<Rightarrow> string list" where
  "js_split c [] = [[]]"
| "js_split c (x # xs) =
     (if x = c then [] # js_split c xs
      else (case js_split c xs of [] \<Rightarrow> [[x]] | t # ts \<Rightarrow> (x # t) # ts))"

definition js_slice0 :: "string \<Rightarrow> nat \<Rightarrow> string" where
  "js_slice0 s n = take (length s - n) s"

text \<open>
  A \<^verbatim>\<open>Map\<close> and a \<^verbatim>\<open>Set\<close> iterate in insertion order: a \<^verbatim>\<open>Map\<close> is a list of
  key/value pairs, a \<^verbatim>\<open>Set\<close> a list. Keys and elements are compared as JavaScript
  compares them (SameValueZero): primitive values (\<open>undefined\<close>, \<open>null\<close>, booleans,
  numbers, strings, BigInts) by value, arrays and objects by identity. Every value the
  agent looks up, adds or deletes is read from the envelope of the message at hand
  (\<^verbatim>\<open>sender\<close>, \<^verbatim>\<open>data._1\<close>, \<^verbatim>\<open>data.r\<close>) or is a string cut from the topic. The arrays
  and objects of a parsed envelope are new ones, and so are taken to be those the adapter
  leaves in it: an array or object is the same value as none that is stored, a lookup of
  it misses and an insertion of it adds. The identifiers of the protocol are strings.
\<close>

fun primitive :: "jsval \<Rightarrow> bool" where
  "primitive (Some (JArr vs)) = False"
| "primitive (Some (JObj ps)) = False"
| "primitive v = True"

definition same_value :: "jsval \<Rightarrow> jsval \<Rightarrow> bool" where
  "same_value x y = (primitive x \<and> x = y)"

fun Map_get :: "jsval \<Rightarrow> (jsval \<times> 'v) list \<Rightarrow> 'v option" where
  "Map_get k [] = None"
| "Map_get k (p # ps) = (if same_value (fst p) k then Some (snd p) else Map_get k ps)"

definition Map_has :: "jsval \<Rightarrow> (jsval \<times> 'v) list \<Rightarrow> bool" where
  "Map_has k m = (Map_get k m \<noteq> None)"

fun Map_set :: "jsval \<Rightarrow> 'v \<Rightarrow> (jsval \<times> 'v) list \<Rightarrow> (jsval \<times> 'v) list" where
  "Map_set k v [] = [(k, v)]"
| "Map_set k v (p # ps) = (if same_value (fst p) k then (fst p, v) # ps else p # Map_set k v ps)"

definition Map_delete :: "jsval \<Rightarrow> (jsval \<times> 'v) list \<Rightarrow> (jsval \<times> 'v) list" where
  "Map_delete k m = filter (\<lambda>p. \<not> same_value (fst p) k) m"

definition Set_has :: "jsval \<Rightarrow> jsval list \<Rightarrow> bool" where
  "Set_has x xs = list_ex (\<lambda>y. same_value y x) xs"

definition Set_add :: "jsval \<Rightarrow> jsval list \<Rightarrow> jsval list" where
  "Set_add x xs = (if Set_has x xs then xs else xs @ [x])"

definition Set_delete :: "jsval \<Rightarrow> jsval list \<Rightarrow> jsval list" where
  "Set_delete x xs = filter (\<lambda>y. \<not> same_value y x) xs"

text \<open>
  \<^verbatim>\<open>entry.length\<close> on a \<^verbatim>\<open>Set\<close>: a \<^verbatim>\<open>Set\<close> has \<^verbatim>\<open>size\<close> but no \<^verbatim>\<open>length\<close> property, so
  the read yields \<open>undefined\<close> whatever the set holds.
\<close>

definition Set_length :: "'a list \<Rightarrow> nat option" where
  "Set_length xs = None"

section \<open>The agent's state and its effects\<close>

datatype level = Debug | Info | Warn | Err

text \<open>
  Every call the agent makes on the broker client, on its own event emitter and on its
  log sink is recorded, in order. \<open>Publish topic message qos retain\<close>,
  \<open>Subscribe topics qos\<close> and \<open>Unsubscribe topic\<close> are the client's \<^verbatim>\<open>publish\<close>,
  \<^verbatim>\<open>subscribe\<close> and \<^verbatim>\<open>unsubscribe\<close>; \<open>ClientEnd\<close> is \<^verbatim>\<open>this._client.end(false, {}, cb)\<close>;
  \<open>ClearPersistedSession\<close> is the clean-session connect of \<^verbatim>\<open>_clearPersistedSession\<close>.
\<close>

datatype effect =
    Publish jsval mqtt_message nat bool
  | Subscribe "string list" nat
  | Unsubscribe string
  | Emit string
  | Log level string
  | ClientEnd
  | ClearPersistedSession

text \<open>
  \<^verbatim>\<open>VrpcAdapter.js\<close> is not among the sources. The agent only calls it, so its
  operations are parameters of the agent's functions, over an adapter state \<open>'a\<close>:
  \<open>call\<close> is \<^verbatim>\<open>VrpcAdapter._call(json)\<close>, which mutates the envelope (the result is the
  mutated envelope) or throws. Callbacks that a dispatched method emits reach the agent
  through \<^verbatim>\<open>_handleVrpcCallback\<close>, an entry point of its own (below); a dispatch does
  not run it here.
\<close>

record 'a adapter_ops =
  call :: "'a \<Rightarrow> obj \<Rightarrow> (exn + obj) \<times> 'a"
  unregisterEventListeners :: "'a \<Rightarrow> string \<Rightarrow> 'a"
  getAvailableClasses :: "'a \<Rightarrow> string list"
  getAvailableInstances :: "'a \<Rightarrow> string \<Rightarrow> string list"
  getAvailableMemberFunctions :: "'a \<Rightarrow> string \<Rightarrow> string list"
  getAvailableStaticFunctions :: "'a \<Rightarrow> string \<Rightarrow> string list"
  getAvailableMetaData :: "'a \<Rightarrow> string \<Rightarrow> jsvalue"

text \<open>
  The fields of \<^verbatim>\<open>this\<close>. \<open>client\<close> is \<^verbatim>\<open>this._client\<close>: \<open>None\<close> until \<^verbatim>\<open>serve\<close> creates
  it, then its \<^verbatim>\<open>connected\<close> flag. \<open>hostname\<close> is what \<^verbatim>\<open>os.hostname()\<close> returns and
  \<open>adapter\<close> the state of the (static) adapter.
\<close>

record 'a agent_state =
  username :: "string option"
  password :: "string option"
  token :: "string option"
  agent :: string
  domain :: string
  broker :: string
  qos :: nat
  version :: string
  isReconnect :: bool
  baseTopic :: string
  unnamedInstances :: "(jsval \<times> jsval list) list"
  namedInstances :: "(jsval \<times> jsval list) list"
  client :: "bool option"
  hostname :: string
  adapter :: 'a
  trace :: "effect list"

type_synonym 'a result = "(exn \<times> 'a agent_state) + 'a agent_state"

definition effect :: "effect \<Rightarrow> 'a agent_state \<Rightarrow> 'a agent_state" where
  "effect e s = s\<lparr>trace := trace s @ [e]\<rparr>"

definition log :: "level \<Rightarrow> string \<Rightarrow> 'a agent_state \<Rightarrow> 'a agent_state" where
  "log l m s = effect (Log l m) s"

definition emit :: "string \<Rightarrow> 'a agent_state \<Rightarrow> 'a agent_state" where
  "emit e s = effect (Emit e) s"

text \<open>
  \<^verbatim>\<open>_mqttPublish\<close>, \<^verbatim>\<open>_mqttSubscribe\<close>, \<^verbatim>\<open>_mqttUnsubscribe\<close> (lines 317-343). Their
  callbacks only log a warning when the broker reports a failure later on.
\<close>

definition mqttPublish :: "jsval \<Rightarrow> mqtt_message \<Rightarrow> bool \<Rightarrow> 'a agent_state \<Rightarrow> 'a agent_state" where
  "mqttPublish topic msg retain s = effect (Publish topic msg (qos s) retain) s"

definition mqttSubscribe :: "string list \<Rightarrow> 'a agent_state \<Rightarrow> 'a agent_state" where
  "mqttSubscribe topics s = effect (Subscribe topics (qos s)) s"

definition mqttUnsubscribe :: "string \<Rightarrow> 'a agent_state \<Rightarrow> 'a agent_state" where
  "mqttUnsubscribe topic s = effect (Unsubscribe topic) s"

text \<open>
  \<^verbatim>\<open>_handleVrpcCallback\<close> (lines 375-386): the callback envelope, already a string, goes
  to the \<^verbatim>\<open>sender\<close> of the parsed envelope.
\<close>

definition handleVrpcCallback :: "string \<Rightarrow> obj \<Rightarrow> 'a agent_state \<Rightarrow> 'a agent_state" where
  "handleVrpcCallback jsonString jsonObject s =
     mqttPublish (get_prop ''sender'' jsonObject) (Text jsonString) False
       (log Debug (''Forwarding callback to: '' @ tmpl (get_prop ''sender'' jsonObject) @ '' with payload:'') s)"

section \<open>Construction (lines 134-174, 271-283)\<close>

record options =
  opt_domain :: "string option"
  opt_agent :: "string option"
  opt_username :: "string option"
  opt_password :: "string option"
  opt_token :: "string option"
  opt_broker :: "string option"
  opt_bestEffort :: "bool option"
  opt_version :: "string option"

text \<open>\<^verbatim>\<open>!x\<close> for a string argument that may be absent: \<open>undefined\<close> and \<^verbatim>\<open>''\<close> are falsy.\<close>

fun not_given :: "string option \<Rightarrow> bool" where
  "not_given None = True"
| "not_given (Some s) = (s = [])"

text \<open>\<^verbatim>\<open>x.match(/[+/#*]/)\<close> finds a match exactly when one of the four characters occurs.\<close>

definition match_forbidden :: "string \<Rightarrow> bool" where
  "match_forbidden x = (\<exists>c \<in> set x. c = CHR ''+'' \<or> c = CHR ''/'' \<or> c = CHR ''#'' \<or> c = CHR ''*'')"

definition validateDomain :: "string option \<Rightarrow> exn + unit" where
  \<open>validateDomain d =
     (if not_given d then Inl (Error ''The domain must be specified'')
      else if match_forbidden (the d)
        then Inl (Error ''The domain must NOT contain any of those characters: "+", "/", "#", "*"'')
      else Inr ())\<close>

definition validateAgent :: "string option \<Rightarrow> exn + unit" where
  \<open>validateAgent a =
     (if not_given a then Inl (Error ''The agent must be specified'')
      else if match_forbidden (the a)
        then Inl (Error ''The agent must NOT contain any of those characters: "+", "/", "#", "*"'')
      else Inr ())\<close>

text \<open>
  The constructor: both validations, then the fields with their defaults. \<open>host\<close> and
  \<open>a\<close> are the environment (host name, adapter state). Installing the callback sink
  and the default \<^verbatim>\<open>error\<close> listener changes none of the fields.
\<close>

definition constructor :: "options \<Rightarrow> string \<Rightarrow> 'a \<Rightarrow> exn + 'a agent_state" where
  "constructor opts host a =
     (case validateDomain (opt_domain opts) of
        Inl e \<Rightarrow> Inl e
      | Inr _ \<Rightarrow>
        (case validateAgent (opt_agent opts) of
           Inl e \<Rightarrow> Inl e
         | Inr _ \<Rightarrow>
           Inr \<lparr> username = opt_username opts,
                 password = opt_password opts,
                 token = opt_token opts,
                 agent = the (opt_agent opts),
                 domain = the (opt_domain opts),
                 broker = (case opt_broker opts of None \<Rightarrow> ''mqtts://vrpc.io:8883'' | Some b \<Rightarrow> b),
                 qos = (if opt_bestEffort opts = Some True then 0 else 1),
                 version = (case opt_version opts of None \<Rightarrow> [] | Some v \<Rightarrow> v),
                 isReconnect = False,
                 baseTopic = the (opt_domain opts) @ ''/'' @ the (opt_agent opts),
                 unnamedInstances = [],
                 namedInstances = [],
                 client = None,
                 hostname = host,
                 adapter = a,
                 trace = [] \<rparr>))"

section \<open>Client and instance tracking (lines 561-634)\<close>

definition clientInfoTopic :: "jsval \<Rightarrow> string" where
  "clientInfoTopic clientId = tmpl clientId @ ''/__clientInfo__''"

definition registerUnnamedInstance :: "jsval \<Rightarrow> jsval \<Rightarrow> 'a agent_state \<Rightarrow> 'a agent_state" where
  "registerUnnamedInstance instanceId clientId s =
     (case Map_get clientId (unnamedInstances s) of
        Some entry \<Rightarrow>
          s\<lparr>unnamedInstances := Map_set clientId (Set_add instanceId entry) (unnamedInstances s)\<rparr>
      | None \<Rightarrow>
          (let s1 = s\<lparr>unnamedInstances := Map_set clientId [instanceId] (unnamedInstances s)\<rparr>;
               s2 = (if \<not> Map_has clientId (namedInstances s1)
                     then mqttSubscribe [clientInfoTopic clientId] s1 else s1)
           in log Info (''Tracking lifetime of client: '' @ tmpl clientId) s2))"

definition registerNamedInstance :: "jsval \<Rightarrow> jsval \<Rightarrow> 'a agent_state \<Rightarrow> 'a agent_state" where
  "registerNamedInstance instanceId clientId s =
     (case Map_get clientId (namedInstances s) of
        Some entry \<Rightarrow>
          s\<lparr>namedInstances := Map_set clientId (Set_add instanceId entry) (namedInstances s)\<rparr>
      | None \<Rightarrow>
          (let s1 = s\<lparr>namedInstances := Map_set clientId [instanceId] (namedInstances s)\<rparr>;
               s2 = (if \<not> Map_has clientId (unnamedInstances s1)
                     then mqttSubscribe [clientInfoTopic clientId] s1 else s1)
           in log Debug (''Tracking lifetime of client: '' @ tmpl clientId) s2))"

definition hasNamedInstance :: "jsval \<Rightarrow> 'a agent_state \<Rightarrow> bool" where
  "hasNamedInstance instanceId s = list_ex (\<lambda>p. Set_has instanceId (snd p)) (namedInstances s)"

text \<open>
  The \<^verbatim>\<open>forEach\<close> over \<^verbatim>\<open>_namedInstances\<close> in \<^verbatim>\<open>_unregisterInstance\<close> (lines 606-616).
  \<open>visited\<close> are the entries already visited and \<open>rest\<close> those still to visit, as the map
  holds them at that moment (an entry deleted before its turn is not visited). The
  callback is declared \<^verbatim>\<open>async\<close> but awaits nothing, so it runs to completion when
  called. The result is the flag \<^verbatim>\<open>found\<close>, the entries of the map and the state.
\<close>

function unregisterNamed ::
  "(jsval \<times> jsval list) list \<Rightarrow> (jsval \<times> jsval list) list \<Rightarrow> jsval \<Rightarrow> jsval \<Rightarrow> bool \<Rightarrow> 'a agent_state
   \<Rightarrow> bool \<times> (jsval \<times> jsval list) list \<times> 'a agent_state" where
  "unregisterNamed visited [] instanceId clientId found s = (found, visited, s)"
| "unregisterNamed visited (p # rest) instanceId clientId found s =
     (if Set_has instanceId (snd p) then
        (if Set_length (Set_delete instanceId (snd p)) = Some 0
         then unregisterNamed
                (Map_delete clientId (visited @ [(fst p, Set_delete instanceId (snd p))]))
                (Map_delete clientId rest) instanceId clientId True
                (log Debug (''Stopped tracking lifetime of client: '' @ tmpl clientId)
                   (mqttUnsubscribe (clientInfoTopic clientId) s))
         else unregisterNamed (visited @ [(fst p, Set_delete instanceId (snd p))]) rest
                instanceId clientId True s)
      else unregisterNamed (visited @ [p]) rest instanceId clientId found s)"
  by pat_completeness auto
termination
  by (relation "measure (\<lambda>(visited, rest, instanceId, clientId, found, s). length rest)")
     (auto simp: Map_delete_def less_Suc_eq_le)

text \<open>\<^verbatim>\<open>_unregisterInstance\<close> (lines 594-622); the result is its return value and the state.\<close>

definition unregisterInstance :: "jsval \<Rightarrow> jsval \<Rightarrow> 'a agent_state \<Rightarrow> bool \<times> 'a agent_state" where
  "unregisterInstance instanceId clientId s =
     (let entryUnnamed = Map_get clientId (unnamedInstances s) in
      if (case entryUnnamed of None \<Rightarrow> False | Some e \<Rightarrow> Set_has instanceId e) then
        (let entry' = Set_delete instanceId (the entryUnnamed);
             s1 = s\<lparr>unnamedInstances := Map_set clientId entry' (unnamedInstances s)\<rparr>;
             s2 = (if Set_length entry' = Some 0
                   then log Debug (''Stopped tracking lifetime of client: '' @ tmpl clientId)
                          (mqttUnsubscribe (clientInfoTopic clientId)
                            (s1\<lparr>unnamedInstances := Map_delete clientId (unnamedInstances s1)\<rparr>))
                   else s1)
         in (False, s2))
      else
        (case unregisterNamed [] (namedInstances s) instanceId clientId False s of
           (found, entries, s1) \<Rightarrow>
             if \<not> found
             then (False, log Warn (''Failed un-registering not registered instance: '' @ tmpl instanceId)
                            (s1\<lparr>namedInstances := entries\<rparr>))
             else (True, s1\<lparr>namedInstances := entries\<rparr>)))"

definition instanceTopic :: "'a agent_state \<Rightarrow> string \<Rightarrow> jsval \<Rightarrow> string" where
  "instanceTopic s className instance = baseTopic s @ ''/'' @ className @ ''/'' @ tmpl instance @ ''/+''"

definition subscribeToMethodsOfNewInstance :: "string \<Rightarrow> jsval \<Rightarrow> 'a agent_state \<Rightarrow> 'a agent_state" where
  "subscribeToMethodsOfNewInstance className instance s =
     log Debug (''Subscribed to new topic after instantiation: '' @ instanceTopic s className instance)
       (mqttSubscribe [instanceTopic s className instance] s)"

definition unsubscribeMethodsOfDeletedInstance :: "string \<Rightarrow> jsval \<Rightarrow> 'a agent_state \<Rightarrow> 'a agent_state" where
  "unsubscribeMethodsOfDeletedInstance className instance s =
     log Debug (''Unsubscribed from topic after deletion: '' @ instanceTopic s className instance)
       (mqttUnsubscribe (instanceTopic s className instance) s)"

section \<open>Retained publications, connect and reconnect (lines 285-291, 388-461, 636-640)\<close>

text \<open>
  \<^verbatim>\<open>_createAgentInfoPayload\<close>: the stringified object has three string properties, on
  which \<^verbatim>\<open>JSON.stringify\<close> cannot throw.
\<close>

definition createAgentInfoPayload :: "string \<Rightarrow> 'a agent_state \<Rightarrow> mqtt_message" where
  "createAgentInfoPayload status s =
     JsonText (JObj [(''status'', JStr status), (''hostname'', JStr (hostname s)),
                     (''version'', JStr (version s))])"

definition agentInfoTopic :: "'a agent_state \<Rightarrow> string" where
  "agentInfoTopic s = baseTopic s @ ''/__agentInfo__''"

definition classInfoTopic :: "'a agent_state \<Rightarrow> string \<Rightarrow> string" where
  "classInfoTopic s className = baseTopic s @ ''/'' @ className @ ''/__classInfo__''"

definition publishAgentInfoMessage :: "'a agent_state \<Rightarrow> 'a agent_state" where
  "publishAgentInfoMessage s =
     mqttPublish (Some (JStr (agentInfoTopic s))) (createAgentInfoPayload ''online'' s) True s"

definition classInfo :: "'a adapter_ops \<Rightarrow> string \<Rightarrow> 'a agent_state \<Rightarrow> jsvalue" where
  "classInfo ops className s =
     JObj [(''className'', JStr className),
           (''instances'', JArr (map JStr (getAvailableInstances ops (adapter s) className))),
           (''memberFunctions'', JArr (map JStr (getAvailableMemberFunctions ops (adapter s) className))),
           (''staticFunctions'', JArr (map JStr (getAvailableStaticFunctions ops (adapter s) className))),
           (''meta'', getAvailableMetaData ops (adapter s) className)]"

definition publishClassInfoMessage :: "'a adapter_ops \<Rightarrow> string \<Rightarrow> 'a agent_state \<Rightarrow> 'a agent_state" where
  "publishClassInfoMessage ops className s =
     (case JSON_stringify (classInfo ops className s) of
        Inr msg \<Rightarrow> mqttPublish (Some (JStr (classInfoTopic s className))) msg True s
      | Inl err \<Rightarrow> log Err (''Problem during publishing class info: '' @ message err) s)"

definition generateTopics :: "'a adapter_ops \<Rightarrow> 'a agent_state \<Rightarrow> string list \<times> 'a agent_state" where
  "generateTopics ops s =
     (let classes = getAvailableClasses ops (adapter s);
          s1 = (if length classes > 0
                then log Info (''Registering classes: '' @ join '', '' classes) s
                else log Warn ''No classes are registered'' s)
      in (concat (map (\<lambda>className.
                    map (\<lambda>func. baseTopic s @ ''/'' @ className @ ''/__static__/'' @ func)
                      (getAvailableStaticFunctions ops (adapter s) className)) classes),
          s1))"

definition handleConnect :: "'a adapter_ops \<Rightarrow> 'a agent_state \<Rightarrow> 'a agent_state" where
  "handleConnect ops s =
     (let s0 = log Info ''[OK]'' s in
      if isReconnect s0 then (emit ''connect'' (publishAgentInfoMessage s0))\<lparr>isReconnect := False\<rparr>
      else
        (case generateTopics ops s0 of
           (topics, s1) \<Rightarrow>
             (let s2 = (if length topics > 0 then mqttSubscribe topics s1 else s1);
                  s3 = publishAgentInfoMessage s2;
                  s4 = foldl (\<lambda>t className. publishClassInfoMessage ops className t) s3
                         (getAvailableClasses ops (adapter s3))
              in emit ''connect'' s4)))"

definition handleReconnect :: "'a agent_state \<Rightarrow> 'a agent_state" where
  "handleReconnect s =
     emit ''reconnect'' (log Warn (''Reconnecting to '' @ broker s) (s\<lparr>isReconnect := True\<rparr>))"

section \<open>Shutdown (lines 241-269)\<close>

text \<open>
  \<^verbatim>\<open>end\<close>. After the early return, the offline publication, the optional clearing of
  the retained slots, the closing of the client (which is then no longer connected) and
  the clean-session connect follow one another.
\<close>

definition end_agent :: "'a adapter_ops \<Rightarrow> bool \<Rightarrow> 'a agent_state \<Rightarrow> 'a agent_state" where
  "end_agent ops unregister s =
     (if client s = None \<or> client s = Some False then emit ''end'' s
      else
        (let s1 = mqttPublish (Some (JStr (agentInfoTopic s))) (createAgentInfoPayload ''offline'' s) True s;
             s2 = (if unregister
                   then foldl (\<lambda>t className. mqttPublish (Some (JStr (classInfoTopic t className))) NullMessage True t)
                          (mqttPublish (Some (JStr (agentInfoTopic s))) NullMessage True s1)
                          (getAvailableClasses ops (adapter s1))
                   else s1)
         in effect ClearPersistedSession ((effect ClientEnd s2)\<lparr>client := Some False\<rparr>)))"

section \<open>Incoming messages (lines 463-559)\<close>

text \<open>
  What \<^verbatim>\<open>JSON.parse(data.toString())\<close> makes of a payload: it throws a SyntaxError,
  or yields the parsed document. The documents of the protocol are objects.
\<close>

datatype message_data = NotJSON | Json obj

text \<open>
  The \<^verbatim>\<open>forEach\<close> of \<^verbatim>\<open>_handleClientInfoMessage\<close> (lines 549-554): one synthesized
  \<^verbatim>\<open>__delete__\<close> envelope per instance of the entry, dispatched through the adapter.
  An \<open>undefined\<close> identifier leaves \<^verbatim>\<open>_1\<close> undefined.
\<close>

fun deleteUnnamed :: "'a adapter_ops \<Rightarrow> jsval list \<Rightarrow> 'a agent_state \<Rightarrow> 'a result" where
  "deleteUnnamed ops [] s = Inr s"
| "deleteUnnamed ops (instanceId # rest) s =
     (let json = [(''data'', JObj (case instanceId of None \<Rightarrow> [] | Some v \<Rightarrow> [(''_1'', v)])),
                  (''method'', JStr ''__delete__'')]
      in case call ops (adapter s) json of
           (Inl err, a) \<Rightarrow> Inl (err, s\<lparr>adapter := a\<rparr>)
         | (Inr json', a) \<Rightarrow>
             (case read_member (get_prop ''data'' json') ''r'' of
                Inl err \<Rightarrow> Inl (err, s\<lparr>adapter := a\<rparr>)
              | Inr r \<Rightarrow>
                  deleteUnnamed ops rest
                    (if truthy r
                     then log Debug (''Deleted unnamed instance: '' @ tmpl instanceId) (s\<lparr>adapter := a\<rparr>)
                     else s\<lparr>adapter := a\<rparr>)))"

definition handleClientInfoMessage :: "'a adapter_ops \<Rightarrow> string \<Rightarrow> obj \<Rightarrow> 'a agent_state \<Rightarrow> 'a result" where
  "handleClientInfoMessage ops topic json s =
     (let clientId = js_slice0 topic 9 in
      if get_prop ''status'' json = Some (JStr ''offline'') then
        (case (case Map_get (Some (JStr clientId)) (unnamedInstances s) of
                 None \<Rightarrow> Inr s
               | Some entry \<Rightarrow> deleteUnnamed ops entry s) of
           Inl x \<Rightarrow> Inl x
         | Inr s1 \<Rightarrow>
             Inr (mqttUnsubscribe (clientId @ ''/__clientInfo__'')
                    (s1\<lparr>adapter := unregisterEventListeners ops (adapter s1) clientId\<rparr>)))
      else Inr s)"

text \<open>
  The \<^verbatim>\<open>switch (method)\<close> of \<^verbatim>\<open>_handleMessage\<close> (lines 490-522). \<open>className\<close>,
  \<open>instance\<close> and \<open>method\<close> are the third to fifth level of the topic, \<open>json\<close> the
  envelope as the adapter left it. The result is the flag \<^verbatim>\<open>publishClassInfo\<close> (for
  \<^verbatim>\<open>__delete__\<close>, what \<^verbatim>\<open>_unregisterInstance\<close> returns) and the state.
\<close>

definition lifecycle ::
  "string \<Rightarrow> string \<Rightarrow> string \<Rightarrow> obj \<Rightarrow> 'a agent_state \<Rightarrow> (exn \<times> 'a agent_state) + (bool \<times> 'a agent_state)" where
  "lifecycle method className instance json s =
     (if method = ''__create__'' then
        (case read_member (get_prop ''data'' json) ''r'' of
           Inl err \<Rightarrow> Inl (err, s)
         | Inr instanceId \<Rightarrow>
             Inr (False, registerUnnamedInstance instanceId (get_prop ''sender'' json)
                           (subscribeToMethodsOfNewInstance className instanceId s)))
      else if method = ''__createNamed__'' then
        (case read_member (get_prop ''data'' json) ''r'' of
           Inl err \<Rightarrow> Inl (err, s)
         | Inr instanceId \<Rightarrow>
             if \<not> hasNamedInstance instanceId s
             then Inr (True, registerNamedInstance instanceId (get_prop ''sender'' json)
                               (subscribeToMethodsOfNewInstance className instanceId s))
             else Inr (False, registerNamedInstance instanceId (get_prop ''sender'' json) s))
      else if method = ''__getNamed__'' then
        (case read_member (get_prop ''data'' json) ''_1'' of
           Inl err \<Rightarrow> Inl (err, s)
         | Inr v1 \<Rightarrow>
             (case read_member (get_prop ''data'' json) ''e'' of
                Inl err \<Rightarrow> Inl (err, s)
              | Inr e \<Rightarrow>
                  if \<not> truthy e
                  then Inr (False, registerNamedInstance v1 (get_prop ''sender'' json) s)
                  else Inr (False, s)))
      else if method = ''__delete__'' then
        (case read_member (get_prop ''data'' json) ''_1'' of
           Inl err \<Rightarrow> Inl (err, s)
         | Inr v1 \<Rightarrow>
             Inr (unregisterInstance v1 (get_prop ''sender'' json)
                    (unsubscribeMethodsOfDeletedInstance className (Some (JStr instance)) s)))
      else Inr (False, s))"

text \<open>
  The inner \<^verbatim>\<open>try\<close>/\<^verbatim>\<open>catch\<close> (lines 523-530): the envelope and its JSON text, with
  \<^verbatim>\<open>data.r\<close> replaced when the first \<^verbatim>\<open>JSON.stringify\<close> throws. The assignment and the
  second \<^verbatim>\<open>JSON.stringify\<close> stand in the \<^verbatim>\<open>catch\<close> block, so what they throw leaves
  the function.
\<close>

definition serializeReply :: "obj \<Rightarrow> 'a agent_state \<Rightarrow> (exn \<times> 'a agent_state) + (obj \<times> mqtt_message \<times> 'a agent_state)" where
  "serializeReply json s =
     (case JSON_stringify (JObj json) of
        Inr jsonString \<Rightarrow> Inr (json, jsonString, s)
      | Inl err \<Rightarrow>
          (let s1 = log Debug (''Failed serialization of return value for: '' @ tmpl (get_prop ''context'' json)
                                 @ ''::'' @ tmpl (get_prop ''method'' json) @ '', because: '' @ message err) s
           in case set_member (get_prop ''data'' json) ''r'' (JStr ''__vrpc::not-serializable__'') of
                Inl err2 \<Rightarrow> Inl (err2, s1)
              | Inr data' \<Rightarrow>
                  (case JSON_stringify (JObj (set_prop ''data'' data' json)) of
                     Inl err3 \<Rightarrow> Inl (err3, s1)
                   | Inr jsonString \<Rightarrow> Inr (set_prop ''data'' data' json, jsonString, s1))))"

text \<open>
  "Prepare RPC json" (lines 482-484): the context is the class for a static call and the
  instance otherwise; the method is the last level of the topic.
\<close>

definition prepareRpc :: "string \<Rightarrow> string \<Rightarrow> string \<Rightarrow> obj \<Rightarrow> obj" where
  "prepareRpc className instance method json =
     set_prop ''method'' (JStr method)
       (set_prop ''context'' (JStr (if instance = ''__static__'' then className else instance)) json)"

text \<open>
  The body of the outer \<^verbatim>\<open>try\<close> of \<^verbatim>\<open>_handleMessage\<close>: \<open>Inl\<close> is an exception that
  reaches the \<^verbatim>\<open>catch\<close>, with the state at that moment. The destructuring
  \<^verbatim>\<open>[,, className, instance, method] = tokens\<close> is read after the two tests on the
  number of levels, where all three exist.
\<close>

definition handleMessage_try :: "'a adapter_ops \<Rightarrow> string \<Rightarrow> message_data \<Rightarrow> 'a agent_state \<Rightarrow> 'a result" where
  "handleMessage_try ops topic data s =
     (case data of
        NotJSON \<Rightarrow> Inl (SyntaxError ''Unexpected token in JSON'', s)
      | Json json \<Rightarrow>
          (let s0 = log Debug (''Message arrived with topic: '' @ topic @ '' and payload:'') s;
               tokens = js_split CHR ''/'' topic
           in if length tokens = 4 \<and> tokens ! 3 = ''__clientInfo__''
              then handleClientInfoMessage ops topic json s0
              else if length tokens \<noteq> 5
              then Inr (log Warn (''Ignoring message with invalid topic: '' @ topic) s0)
              else
                (let className = tokens ! 2; instance = tokens ! 3; method = tokens ! 4;
                     json1 = prepareRpc className instance method json
                 in case call ops (adapter s0) json1 of
                      (Inl err, a) \<Rightarrow> Inl (err, s0\<lparr>adapter := a\<rparr>)
                    | (Inr json2, a) \<Rightarrow>
                        (case lifecycle method className instance json2 (s0\<lparr>adapter := a\<rparr>) of
                           Inl x \<Rightarrow> Inl x
                         | Inr (publishClassInfo, s1) \<Rightarrow>
                             (case serializeReply json2 s1 of
                                Inl x \<Rightarrow> Inl x
                              | Inr (json3, jsonString, s2) \<Rightarrow>
                                  (let s3 = (if publishClassInfo \<and> method = ''__delete__''
                                             then publishClassInfoMessage ops className s2 else s2);
                                       s4 = mqttPublish (get_prop ''sender'' json3) jsonString False s3;
                                       s5 = (if publishClassInfo \<and> method = ''__createNamed__''
                                             then publishClassInfoMessage ops className s4 else s4)
                                   in Inr s5))))))"

definition handleMessage :: "'a adapter_ops \<Rightarrow> string \<Rightarrow> message_data \<Rightarrow> 'a agent_state \<Rightarrow> 'a agent_state" where
  "handleMessage ops topic data s =
     (case handleMessage_try ops topic data s of
        Inr s' \<Rightarrow> s'
      | Inl (err, s') \<Rightarrow> log Err (''Problem while handling incoming message: '' @ message err) s')"

section \<open>The adapter's lookup, and adapters to run the agent with\<close>

text \<open>
  Modelled from the spec: \<^verbatim>\<open>VrpcAdapter.js\<close> (\<^verbatim>\<open>call\<close>, \<^verbatim>\<open>_call\<close>) is not among the
  sources. Of its dispatch the lookup is modelled, in the words of the dispatch algorithm
  (4.1, steps 1 and 2): if the context is a registered class name the method is resolved
  in the table of that class (static and constructor entries); otherwise the instance
  table is looked up, and the method is resolved in the member-function table of the
  instance. A missing context sets \<^verbatim>\<open>data.e\<close> to \<^verbatim>\<open>Could not find context: <name>\<close>, a
  missing method sets it to \<^verbatim>\<open>Could not find function: <name>\<close>, and the envelope is
  returned (\<open>withError\<close>; \<^verbatim>\<open>data\<close> is the envelope's mapping, and an envelope without
  one is given an empty one). Everything the adapter does once both are found is the
  parameter \<open>dispatch\<close>.
\<close>

record registry =
  classes :: "(string \<times> string list) list"
  instances :: "(string \<times> string list) list"

definition withError :: "string \<Rightarrow> obj \<Rightarrow> obj" where
  "withError msg json =
     set_prop ''data''
       (JObj (set_prop ''e'' (JStr msg)
                (case get_prop ''data'' json of Some (JObj dat) \<Rightarrow> dat | _ \<Rightarrow> [])))
       json"

definition VrpcAdapter_call ::
  "(registry \<Rightarrow> obj \<Rightarrow> (exn + obj) \<times> registry) \<Rightarrow> registry \<Rightarrow> obj \<Rightarrow> (exn + obj) \<times> registry" where
  "VrpcAdapter_call dispatch reg json =
     (let context = tmpl (get_prop ''context'' json); method = tmpl (get_prop ''method'' json)
      in case map_of (classes reg) context of
           Some functions \<Rightarrow>
             if method \<in> set functions then dispatch reg json
             else (Inr (withError (''Could not find function: '' @ method) json), reg)
         | None \<Rightarrow>
             (case map_of (instances reg) context of
                None \<Rightarrow> (Inr (withError (''Could not find context: '' @ context) json), reg)
              | Some memberFunctions \<Rightarrow>
                  if method \<in> set memberFunctions then dispatch reg json
                  else (Inr (withError (''Could not find function: '' @ method) json), reg)))"

text \<open>
  An adapter given by its dispatch alone, with no class registered and no event
  listener to drop: the adapter the agent is run with on concrete inputs.
\<close>

definition adapter_with :: "('a \<Rightarrow> obj \<Rightarrow> (exn + obj) \<times> 'a) \<Rightarrow> 'a adapter_ops" where
  "adapter_with c =
     \<lparr> call = c,
       unregisterEventListeners = (\<lambda>a clientId. a),
       getAvailableClasses = (\<lambda>a. []),
       getAvailableInstances = (\<lambda>a className. []),
       getAvailableMemberFunctions = (\<lambda>a className. []),
       getAvailableStaticFunctions = (\<lambda>a className. []),
       getAvailableMetaData = (\<lambda>a className. JObj []) \<rparr>"

text \<open>The same adapter, reporting the given instances for every class.\<close>

definition listing :: "string list \<Rightarrow> 'a adapter_ops \<Rightarrow> 'a adapter_ops" where
  "listing ids ops = ops\<lparr>getAvailableInstances := (\<lambda>a className. ids)\<rparr>"

text \<open>A dispatch that returns the envelope with \<^verbatim>\<open>data\<close> replaced.\<close>

definition returning :: "obj \<Rightarrow> 'a \<Rightarrow> obj \<Rightarrow> (exn + obj) \<times> 'a" where
  "returning dat a json = (Inr (set_prop ''data'' (JObj dat) json), a)"

text \<open>
  An adapter that answers like \<open>returning\<close> and keeps a record of what the agent asked
  of it: the envelopes dispatched and the clients whose listeners were dropped.
\<close>

datatype adapter_event = Called obj | DroppedListeners string

definition recording :: "obj \<Rightarrow> adapter_event list adapter_ops" where
  "recording dat =
     (adapter_with (\<lambda>a json. (Inr (set_prop ''data'' (JObj dat) json), a @ [Called json])))
       \<lparr>unregisterEventListeners := (\<lambda>a clientId. a @ [DroppedListeners clientId])\<rparr>"

text \<open>
  The agent constructed for domain \<^verbatim>\<open>d\<close> and agent \<^verbatim>\<open>a\<close> on host \<^verbatim>\<open>h\<close>, once \<^verbatim>\<open>serve\<close>
  has created the broker client and it is connected.
\<close>

definition agent0 :: "'a \<Rightarrow> 'a agent_state" where
  "agent0 a =
     \<lparr> username = None, password = None, token = None, agent = ''a'', domain = ''d'',
       broker = ''mqtts://vrpc.io:8883'', qos = 1, version = [], isReconnect = False,
       baseTopic = ''d/a'', unnamedInstances = [], namedInstances = [], client = Some True,
       hostname = ''h'', adapter = a, trace = [] \<rparr>"

section \<open>Observations on the trace\<close>

fun is_publish :: "effect \<Rightarrow> bool" where
  "is_publish (Publish t m q r) = True"
| "is_publish e = False"

text \<open>A reply is a publication that is not retained; the info documents are retained.\<close>

fun is_reply :: "effect \<Rightarrow> bool" where
  "is_reply (Publish t m q r) = (\<not> r)"
| "is_reply e = False"

definition publications :: "effect list \<Rightarrow> effect list" where
  "publications t = filter is_publish t"

definition replies :: "effect list \<Rightarrow> effect list" where
  "replies t = filter is_reply t"

text \<open>What \<^verbatim>\<open>_publishClassInfoMessage\<close> publishes: nothing when the document does not serialize.\<close>

definition classInfoPublication :: "'a adapter_ops \<Rightarrow> string \<Rightarrow> 'a agent_state \<Rightarrow> effect list" where
  "classInfoPublication ops className s =
     (if serializable (classInfo ops className s)
      then [Publish (Some (JStr (classInfoTopic s className))) (JsonText (classInfo ops className s)) (qos s) True]
      else [])"

text \<open>
  The envelope that \<^verbatim>\<open>_handleMessage\<close> publishes as the reply to a dispatched envelope,
  if any: the envelope itself when it serializes, else the envelope with \<^verbatim>\<open>data.r\<close>
  replaced by the sentinel when that serializes (\<open>serializeReply_eq\<close> below relates it to
  \<open>serializeReply\<close>).
\<close>

definition withSentinel :: "obj \<Rightarrow> obj" where
  "withSentinel json =
     (case get_prop ''data'' json of
        Some (JObj dat) \<Rightarrow>
          set_prop ''data'' (JObj (set_prop ''r'' (JStr ''__vrpc::not-serializable__'') dat)) json
      | _ \<Rightarrow> json)"

definition replyEnvelope :: "obj \<Rightarrow> obj option" where
  "replyEnvelope json =
     (if serializable (JObj json) then Some json
      else if serializable (JObj (withSentinel json)) then Some (withSentinel json)
      else None)"

text \<open>
  A step is quiet when it publishes nothing and leaves the adapter, the base topic and
  the quality of service as they are.
\<close>

definition quiet :: "'a agent_state \<Rightarrow> 'a agent_state \<Rightarrow> bool" where
  "quiet s s1 = (qos s1 = qos s \<and> adapter s1 = adapter s \<and> baseTopic s1 = baseTopic s
                 \<and> publications (trace s1) = publications (trace s))"

text \<open>Whether \<^verbatim>\<open>data.r\<close>, \<^verbatim>\<open>data.e\<close> are set in an envelope.\<close>

definition data_has :: "string \<Rightarrow> obj \<Rightarrow> bool" where
  "data_has k json = (case get_prop ''data'' json of Some (JObj dat) \<Rightarrow> get_prop k dat \<noteq> None | _ \<Rightarrow> False)"

definition r_xor_e :: "obj \<Rightarrow> bool" where
  "r_xor_e json = (data_has ''r'' json \<noteq> data_has ''e'' json)"


section \<open>Basic facts\<close>

lemmas effect_defs = effect_def log_def emit_def mqttPublish_def mqttSubscribe_def mqttUnsubscribe_def

text \<open>The definitions that running the agent on a concrete input unfolds.\<close>

lemmas run_defs = handleMessage_def handleMessage_try_def handleClientInfoMessage_def lifecycle_def
  prepareRpc_def serializeReply_def JSON_stringify_def registerUnnamedInstance_def
  registerNamedInstance_def hasNamedInstance_def unregisterInstance_def
  subscribeToMethodsOfNewInstance_def unsubscribeMethodsOfDeletedInstance_def instanceTopic_def
  clientInfoTopic_def publishClassInfoMessage_def classInfo_def classInfoTopic_def
  same_value_def Map_has_def Map_delete_def Set_has_def Set_add_def Set_delete_def Set_length_def
  get_prop_def js_slice0_def adapter_with_def listing_def returning_def recording_def agent0_def
  effect_defs Let_def

lemmas obs_defs = publications_def replies_def replyEnvelope_def withSentinel_def r_xor_e_def
  data_has_def classInfoPublication_def VrpcAdapter_call_def withError_def

text \<open>\<open>agent0\<close> is what the constructor returns, with the client that \<^verbatim>\<open>serve\<close> adds.\<close>

lemma agent0_constructed:
  "constructor \<lparr>opt_domain = Some ''d'', opt_agent = Some ''a'', opt_username = None,
                 opt_password = None, opt_token = None, opt_broker = None,
                 opt_bestEffort = None, opt_version = None\<rparr> ''h'' a
   = Inr ((agent0 a)\<lparr>client := None\<rparr>)"
  by (simp add: constructor_def validateDomain_def validateAgent_def match_forbidden_def agent0_def)

section \<open>Connection handling and shutdown\<close>

text \<open>
  C7. \<^verbatim>\<open>_handleReconnect\<close> only sets the reconnect flag (and logs and emits
  \<^verbatim>\<open>reconnect\<close>). In every state in which the flag is set, \<^verbatim>\<open>_handleConnect\<close> changes
  the state in exactly two ways: the flag is cleared, and the trace grows by the log
  line, one retained publication of the online agent info and the \<^verbatim>\<open>connect\<close> event. So
  it subscribes to nothing and publishes no class info, and the next connect takes the
  first-connect path again.
\<close>

theorem reconnect_republishes_agent_info_only:
  "handleReconnect s =
     s\<lparr>isReconnect := True,
        trace := trace s @ [Log Warn (''Reconnecting to '' @ broker s), Emit ''reconnect'']\<rparr>
   \<and> handleConnect ops (s\<lparr>isReconnect := True\<rparr>) =
     s\<lparr>isReconnect := False,
        trace := trace s @
          [Log Info ''[OK]'',
           Publish (Some (JStr (baseTopic s @ ''/__agentInfo__'')))
             (JsonText (JObj [(''status'', JStr ''online''), (''hostname'', JStr (hostname s)),
                              (''version'', JStr (version s))]))
             (qos s) True,
           Emit ''connect'']\<rparr>"
  by (simp add: handleReconnect_def handleConnect_def publishAgentInfoMessage_def
      agentInfoTopic_def createAgentInfoPayload_def effect_defs Let_def)

text \<open>
  C10. When there is no broker client, or the client is not connected, \<^verbatim>\<open>end\<close> leaves
  the state as it is and adds one entry to the trace, the \<^verbatim>\<open>end\<close> event: nothing is
  published, whatever \<open>unregister\<close> is.
\<close>

theorem end_without_connection_only_emits_end:
  "end_agent ops unregister (s\<lparr>client := None\<rparr>) =
     s\<lparr>client := None, trace := trace s @ [Emit ''end'']\<rparr>
   \<and> end_agent ops unregister (s\<lparr>client := Some False\<rparr>) =
     s\<lparr>client := Some False, trace := trace s @ [Emit ''end'']\<rparr>"
  by (simp add: end_agent_def effect_defs)

section \<open>Construction\<close>

text \<open>
  C9, as amended. The constructor throws exactly when the domain is absent, empty or
  contains one of \<^verbatim>\<open>+ / # *\<close>, or the agent name is absent, empty or contains one of
  them; in every other case it returns the agent.
\<close>

theorem constructor_throws_iff:
  "(\<exists>e. constructor opts host a = Inl e) =
     (not_given (opt_domain opts) \<or> (\<exists>d. opt_domain opts = Some d \<and> match_forbidden d)
      \<or> not_given (opt_agent opts) \<or> (\<exists>g. opt_agent opts = Some g \<and> match_forbidden g))"
  by (cases "opt_domain opts"; cases "opt_agent opts")
     (auto simp: constructor_def validateDomain_def validateAgent_def split: sum.splits)

text \<open>
  Counterexample to C9 as stated: a domain that is present and empty contains none of
  the four characters, and the constructor throws.
\<close>

theorem constructor_rejects_empty_domain:
  "\<not> match_forbidden []
   \<and> constructor \<lparr>opt_domain = Some [], opt_agent = Some ''a'', opt_username = None,
                   opt_password = None, opt_token = None, opt_broker = None,
                   opt_bestEffort = None, opt_version = None\<rparr> ''h'' ()
     = Inl (Error ''The domain must be specified'')"
  by (simp add: constructor_def validateDomain_def match_forbidden_def)

section \<open>Tracking of clients and instances\<close>

text \<open>
  In every state, \<^verbatim>\<open>_unregisterInstance\<close> keeps every client as a key of both maps and
  unsubscribes from nothing: the two branches guarded by \<^verbatim>\<open>length === 0\<close> are never
  taken.
\<close>

lemma Map_set_keys: "Map_get k m = Some x \<Longrightarrow> map fst (Map_set k v m) = map fst m"
  by (induction m) (auto split: if_splits)

lemma unregisterNamed_releases_nothing:
  "trace (snd (snd (unregisterNamed visited rest i c f s))) = trace s
   \<and> unnamedInstances (snd (snd (unregisterNamed visited rest i c f s))) = unnamedInstances s
   \<and> map fst (fst (snd (unregisterNamed visited rest i c f s))) = map fst visited @ map fst rest"
proof (induction rest arbitrary: visited f)
  case Nil
  show ?case by simp
next
  case (Cons p rest)
  show ?case
    using Cons.IH[of "visited @ [(fst p, Set_delete i (snd p))]" True] Cons.IH[of "visited @ [p]" f]
    by (simp add: Set_length_def)
qed

lemma unregisterInstance_releases_nothing:
  "map fst (unnamedInstances (snd (unregisterInstance i c s))) = map fst (unnamedInstances s)
   \<and> map fst (namedInstances (snd (unregisterInstance i c s))) = map fst (namedInstances s)
   \<and> filter (\<lambda>e. \<exists>t. e = Unsubscribe t) (trace (snd (unregisterInstance i c s)))
     = filter (\<lambda>e. \<exists>t. e = Unsubscribe t) (trace s)"
proof (cases "case Map_get c (unnamedInstances s) of None \<Rightarrow> False | Some e \<Rightarrow> Set_has i e")
  case True
  then obtain e where e: "Map_get c (unnamedInstances s) = Some e"
    by (cases "Map_get c (unnamedInstances s)") simp_all
  then have "map fst (Map_set c (Set_delete i e) (unnamedInstances s)) = map fst (unnamedInstances s)"
    by (simp add: Map_set_keys)
  then show ?thesis
    using True e by (simp add: unregisterInstance_def Set_length_def Let_def)
next
  case False
  obtain f es t where u: "unregisterNamed [] (namedInstances s) i c False s = (f, es, t)"
    by (cases "unregisterNamed [] (namedInstances s) i c False s")
  have "trace t = trace s \<and> unnamedInstances t = unnamedInstances s
        \<and> map fst es = map fst (namedInstances s)"
    using unregisterNamed_releases_nothing[of "[]" "namedInstances s" i c False s] u by simp
  then show ?thesis
    using False u by (simp add: unregisterInstance_def Let_def effect_defs)
qed

text \<open>
  C1 (defect of the code). Client \<^verbatim>\<open>c\<close> creates an anonymous instance and deletes it
  again. After the \<^verbatim>\<open>__create__\<close> the agent tracks \<^verbatim>\<open>c\<close> and is subscribed to
  \<^verbatim>\<open>c/__clientInfo__\<close>. The \<^verbatim>\<open>__delete__\<close> empties the set of \<^verbatim>\<open>c\<close>, but
  \<^verbatim>\<open>_unregisterInstance\<close> tests \<^verbatim>\<open>entryUnnamed.length === 0\<close>, which is never true of a
  \<^verbatim>\<open>Set\<close>: \<^verbatim>\<open>c\<close> stays a key of the map, with an empty set, and no
  \<^verbatim>\<open>Unsubscribe ''c/__clientInfo__''\<close> is issued. The whole final state is given.
\<close>

theorem last_delete_keeps_client_and_subscription:
  "handleMessage (adapter_with (returning [(''_1'', JStr ''i1''), (''r'', JBool True)]))
     ''d/a/Foo/__static__/__delete__''
     (Json [(''data'', JObj [(''_1'', JStr ''i1'')]), (''sender'', JStr ''c'')])
     (handleMessage (adapter_with (returning [(''r'', JStr ''i1'')]))
        ''d/a/Foo/__static__/__create__''
        (Json [(''data'', JObj []), (''sender'', JStr ''c'')])
        (agent0 ()))
   = (agent0 ())
     \<lparr>unnamedInstances := [(Some (JStr ''c''), [])],
      trace :=
        [Log Debug ''Message arrived with topic: d/a/Foo/__static__/__create__ and payload:'',
         Subscribe [''d/a/Foo/i1/+''] 1,
         Log Debug ''Subscribed to new topic after instantiation: d/a/Foo/i1/+'',
         Subscribe [''c/__clientInfo__''] 1,
         Log Info ''Tracking lifetime of client: c'',
         Publish (Some (JStr ''c''))
           (JsonText (JObj [(''data'', JObj [(''r'', JStr ''i1'')]), (''sender'', JStr ''c''),
                            (''context'', JStr ''Foo''), (''method'', JStr ''__create__'')])) 1 False,
         Log Debug ''Message arrived with topic: d/a/Foo/__static__/__delete__ and payload:'',
         Unsubscribe ''d/a/Foo/__static__/+'',
         Log Debug ''Unsubscribed from topic after deletion: d/a/Foo/__static__/+'',
         Publish (Some (JStr ''c''))
           (JsonText (JObj [(''data'', JObj [(''_1'', JStr ''i1''), (''r'', JBool True)]),
                            (''sender'', JStr ''c''), (''context'', JStr ''Foo''),
                            (''method'', JStr ''__delete__'')])) 1 False]\<rparr>"
  by (simp add: run_defs)

text \<open>
  C2 (defect of the code). The client with reply topic \<^verbatim>\<open>d/h/c\<close> creates an anonymous
  instance and then goes offline. \<^verbatim>\<open>_handleClientInfoMessage\<close> cuts nine characters off
  the topic \<^verbatim>\<open>d/h/c/__clientInfo__\<close>, whose suffix \<^verbatim>\<open>/__clientInfo__\<close> has fifteen, and
  takes \<^verbatim>\<open>d/h/c/__cli\<close> for the client: it finds no entry, so the adapter is asked for no
  \<^verbatim>\<open>__delete__\<close> (its record holds the \<^verbatim>\<open>__create__\<close> only), the listeners are dropped
  for \<^verbatim>\<open>d/h/c/__cli\<close>, the topic unsubscribed is \<^verbatim>\<open>d/h/c/__cli/__clientInfo__\<close>, and the
  instance stays tracked with its dispatch topic subscribed.
\<close>

theorem offline_client_keeps_its_instances:
  "handleMessage (recording [(''r'', JStr ''i1'')]) ''d/h/c/__clientInfo__''
     (Json [(''status'', JStr ''offline'')])
     (handleMessage (recording [(''r'', JStr ''i1'')]) ''d/a/Foo/__static__/__create__''
        (Json [(''data'', JObj []), (''sender'', JStr ''d/h/c'')])
        (agent0 []))
   = (agent0 [])
     \<lparr>unnamedInstances := [(Some (JStr ''d/h/c''), [Some (JStr ''i1'')])],
      adapter :=
        [Called [(''data'', JObj []), (''sender'', JStr ''d/h/c''), (''context'', JStr ''Foo''),
                 (''method'', JStr ''__create__'')],
         DroppedListeners ''d/h/c/__cli''],
      trace :=
        [Log Debug ''Message arrived with topic: d/a/Foo/__static__/__create__ and payload:'',
         Subscribe [''d/a/Foo/i1/+''] 1,
         Log Debug ''Subscribed to new topic after instantiation: d/a/Foo/i1/+'',
         Subscribe [''d/h/c/__clientInfo__''] 1,
         Log Info ''Tracking lifetime of client: d/h/c'',
         Publish (Some (JStr ''d/h/c''))
           (JsonText (JObj [(''data'', JObj [(''r'', JStr ''i1'')]), (''sender'', JStr ''d/h/c''),
                            (''context'', JStr ''Foo''), (''method'', JStr ''__create__'')])) 1 False,
         Log Debug ''Message arrived with topic: d/h/c/__clientInfo__ and payload:'',
         Unsubscribe ''d/h/c/__cli/__clientInfo__'']\<rparr>"
  by (simp add: run_defs)

text \<open>
  C6 (defect of the code). A named instance \<^verbatim>\<open>foo1\<close> is created and deleted; as in the
  adapter's tests the \<^verbatim>\<open>__delete__\<close> is addressed to the class, with the instance in
  \<^verbatim>\<open>_1\<close>. The topic unsubscribed is built from the fourth level of the topic,
  \<^verbatim>\<open>__static__\<close>, not from \<^verbatim>\<open>_1\<close>: the agent unsubscribes from
  \<^verbatim>\<open>d/a/Foo/__static__/+\<close>, and \<^verbatim>\<open>d/a/Foo/foo1/+\<close>, subscribed at creation, stays.
\<close>

theorem delete_unsubscribes_static_wildcard:
  "trace (handleMessage (adapter_with (returning [(''_1'', JStr ''foo1''), (''r'', JBool True)]))
     ''d/a/Foo/__static__/__delete__''
     (Json [(''data'', JObj [(''_1'', JStr ''foo1'')]), (''sender'', JStr ''c'')])
     (handleMessage (listing [''foo1''] (adapter_with (returning [(''_1'', JStr ''foo1''), (''r'', JStr ''foo1'')])))
        ''d/a/Foo/__static__/__createNamed__''
        (Json [(''data'', JObj [(''_1'', JStr ''foo1'')]), (''sender'', JStr ''c'')])
        (agent0 ())))
   = [Log Debug ''Message arrived with topic: d/a/Foo/__static__/__createNamed__ and payload:'',
      Subscribe [''d/a/Foo/foo1/+''] 1,
      Log Debug ''Subscribed to new topic after instantiation: d/a/Foo/foo1/+'',
      Subscribe [''c/__clientInfo__''] 1,
      Log Debug ''Tracking lifetime of client: c'',
      Publish (Some (JStr ''c''))
        (JsonText (JObj [(''data'', JObj [(''_1'', JStr ''foo1''), (''r'', JStr ''foo1'')]),
                         (''sender'', JStr ''c''), (''context'', JStr ''Foo''),
                         (''method'', JStr ''__createNamed__'')])) 1 False,
      Publish (Some (JStr ''d/a/Foo/__classInfo__''))
        (JsonText (JObj [(''className'', JStr ''Foo''), (''instances'', JArr [JStr ''foo1'']),
                         (''memberFunctions'', JArr []), (''staticFunctions'', JArr []),
                         (''meta'', JObj [])])) 1 True,
      Log Debug ''Message arrived with topic: d/a/Foo/__static__/__delete__ and payload:'',
      Unsubscribe ''d/a/Foo/__static__/+'',
      Log Debug ''Unsubscribed from topic after deletion: d/a/Foo/__static__/+'',
      Publish (Some (JStr ''d/a/Foo/__classInfo__''))
        (JsonText (JObj [(''className'', JStr ''Foo''), (''instances'', JArr []),
                         (''memberFunctions'', JArr []), (''staticFunctions'', JArr []),
                         (''meta'', JObj [])])) 1 True,
      Publish (Some (JStr ''c''))
        (JsonText (JObj [(''data'', JObj [(''_1'', JStr ''foo1''), (''r'', JBool True)]),
                         (''sender'', JStr ''c''), (''context'', JStr ''Foo''),
                         (''method'', JStr ''__delete__'')])) 1 False]"
  by (simp add: run_defs)

section \<open>Steps that publish nothing\<close>

lemma quiet_refl: "quiet s s"
  by (simp add: quiet_def)

lemma quiet_trans: "quiet s s1 \<Longrightarrow> quiet s1 s2 \<Longrightarrow> quiet s s2"
  by (simp add: quiet_def)

lemma quiet_log: "quiet s (log l m s)"
  by (simp add: quiet_def publications_def effect_defs)

lemma quiet_mqttSubscribe: "quiet s (mqttSubscribe ts s)"
  by (simp add: quiet_def publications_def effect_defs)

lemma quiet_mqttUnsubscribe: "quiet s (mqttUnsubscribe t s)"
  by (simp add: quiet_def publications_def effect_defs)

lemma quiet_unnamedInstances: "quiet s (s\<lparr>unnamedInstances := m\<rparr>)"
  by (simp add: quiet_def)

lemma quiet_namedInstances: "quiet s (s\<lparr>namedInstances := m\<rparr>)"
  by (simp add: quiet_def)

lemma quiet_registerUnnamedInstance: "quiet s (registerUnnamedInstance i c s)"
  by (simp add: registerUnnamedInstance_def quiet_def publications_def effect_defs Let_def split: option.splits)

lemma quiet_registerNamedInstance: "quiet s (registerNamedInstance i c s)"
  by (simp add: registerNamedInstance_def quiet_def publications_def effect_defs Let_def split: option.splits)

lemma quiet_subscribeToMethodsOfNewInstance: "quiet s (subscribeToMethodsOfNewInstance c i s)"
  by (simp add: subscribeToMethodsOfNewInstance_def quiet_def publications_def effect_defs)

lemma quiet_unsubscribeMethodsOfDeletedInstance: "quiet s (unsubscribeMethodsOfDeletedInstance c i s)"
  by (simp add: unsubscribeMethodsOfDeletedInstance_def quiet_def publications_def effect_defs)

lemma quiet_unregisterNamed: "quiet s (snd (snd (unregisterNamed visited rest i c f s)))"
proof (induction rest arbitrary: visited f)
  case Nil
  show ?case by (simp add: quiet_refl)
next
  case (Cons p rest)
  show ?case
    using Cons.IH[of "visited @ [(fst p, Set_delete i (snd p))]" True] Cons.IH[of "visited @ [p]" f]
    by (simp add: Set_length_def)
qed

lemma quiet_unregisterInstance: "quiet s (snd (unregisterInstance i c s))"
proof -
  obtain f es t where u: "unregisterNamed [] (namedInstances s) i c False s = (f, es, t)"
    by (cases "unregisterNamed [] (namedInstances s) i c False s")
  have "quiet s t"
    using quiet_unregisterNamed[of s "[]" "namedInstances s" i c False] u by simp
  then have n: "quiet s (t\<lparr>namedInstances := es\<rparr>)"
    by (simp add: quiet_def)
  have w: "quiet s (log Warn (''Failed un-registering not registered instance: '' @ tmpl i)
                      (t\<lparr>namedInstances := es\<rparr>))"
    using quiet_trans[OF n quiet_log] .
  show ?thesis
    using n w u
    by (simp add: unregisterInstance_def Let_def Set_length_def quiet_unnamedInstances)
qed

lemma quiet_unregisterInstance_eq: "unregisterInstance i c s = (f, s1) \<Longrightarrow> quiet s s1"
  using quiet_unregisterInstance[of s i c] by simp

lemma lifecycle_Inr: "lifecycle m c i json s = Inr (flag, s1) \<Longrightarrow> quiet s s1"
  unfolding lifecycle_def
  by (auto split: if_splits sum.splits prod.splits
      intro: quiet_refl quiet_registerNamedInstance
             quiet_trans[OF quiet_subscribeToMethodsOfNewInstance quiet_registerUnnamedInstance]
             quiet_trans[OF quiet_subscribeToMethodsOfNewInstance quiet_registerNamedInstance]
             quiet_trans[OF quiet_unsubscribeMethodsOfDeletedInstance quiet_unregisterInstance_eq])

lemma lifecycle_Inl: "lifecycle m c i json s = Inl (err, s1) \<Longrightarrow> s1 = s"
  unfolding lifecycle_def
  by (auto split: if_splits sum.splits prod.splits)

lemma replies_publications: "replies t = filter is_reply (publications t)"
proof -
  have "\<And>e. (is_publish e \<and> is_reply e) = is_reply e"
    by (case_tac e) simp_all
  then show ?thesis by (simp add: replies_def publications_def)
qed


lemma get_prop_set_prop: "get_prop k (set_prop k' v ps) = (if k = k' then Some v else get_prop k ps)"
  by (induction ps) (auto simp: get_prop_def)

lemma set_prop_same: "get_prop k ps = Some v \<Longrightarrow> set_prop k v ps = ps"
  by (induction ps) (auto simp: get_prop_def split: if_splits)

lemma serializeReply_eq:
  "serializeReply json s =
     (case replyEnvelope json of
        Some json3 \<Rightarrow>
          Inr (json3, JsonText (JObj json3),
               if serializable (JObj json) then s
               else log Debug (''Failed serialization of return value for: '' @ tmpl (get_prop ''context'' json)
                                 @ ''::'' @ tmpl (get_prop ''method'' json) @ '', because: ''
                                 @ ''Do not know how to serialize a BigInt'') s)
      | None \<Rightarrow>
          Inl (case set_member (get_prop ''data'' json) ''r'' (JStr ''__vrpc::not-serializable__'') of
                 Inl err \<Rightarrow> err | Inr d \<Rightarrow> TypeError ''Do not know how to serialize a BigInt'',
               log Debug (''Failed serialization of return value for: '' @ tmpl (get_prop ''context'' json)
                                 @ ''::'' @ tmpl (get_prop ''method'' json) @ '', because: ''
                                 @ ''Do not know how to serialize a BigInt'') s))"
proof (cases "serializable (JObj json)")
  case True
  then show ?thesis by (simp add: serializeReply_def replyEnvelope_def JSON_stringify_def)
next
  case False
  note ns = this
  show ?thesis
  proof (cases "get_prop ''data'' json")
    case None
    then show ?thesis using ns
      by (simp add: serializeReply_def replyEnvelope_def JSON_stringify_def withSentinel_def)
  next
    case (Some d)
    then show ?thesis using ns
      by (cases d) (simp_all add: serializeReply_def replyEnvelope_def JSON_stringify_def withSentinel_def set_prop_same)
  qed
qed



lemma replyEnvelope_sender: "replyEnvelope json = Some json3 \<Longrightarrow> get_prop ''sender'' json3 = get_prop ''sender'' json"
  by (auto simp: replyEnvelope_def withSentinel_def get_prop_set_prop split: if_splits option.splits jsvalue.splits)




lemma handleMessage_try_rpc:
  assumes "js_split CHR ''/'' topic = [d, a, c, i, m]"
  shows "handleMessage_try ops topic (Json json) s =
     (case call ops (adapter s) (prepareRpc c i m json) of
        (Inl err, a') \<Rightarrow>
          Inl (err, (log Debug (''Message arrived with topic: '' @ topic @ '' and payload:'') s)\<lparr>adapter := a'\<rparr>)
      | (Inr json2, a') \<Rightarrow>
          (case lifecycle m c i json2
                  ((log Debug (''Message arrived with topic: '' @ topic @ '' and payload:'') s)\<lparr>adapter := a'\<rparr>) of
             Inl x \<Rightarrow> Inl x
           | Inr (publishClassInfo, s1) \<Rightarrow>
               (case serializeReply json2 s1 of
                  Inl x \<Rightarrow> Inl x
                | Inr (json3, jsonString, s2) \<Rightarrow>
                    Inr (if publishClassInfo \<and> m = ''__createNamed__''
                         then publishClassInfoMessage ops c (mqttPublish (get_prop ''sender'' json3) jsonString False s2)
                         else if publishClassInfo \<and> m = ''__delete__''
                         then mqttPublish (get_prop ''sender'' json3) jsonString False (publishClassInfoMessage ops c s2)
                         else mqttPublish (get_prop ''sender'' json3) jsonString False s2))))"
proof -
  have a: "\<And>l x. adapter (log l x s) = adapter s"
    by (simp add: effect_defs)
  show ?thesis
    unfolding handleMessage_try_def
    by (simp add: assms Let_def a split: prod.splits sum.splits)
qed


lemma replies_quiet: "quiet s s1 \<Longrightarrow> replies (trace s1) = replies (trace s)"
  by (simp add: replies_publications quiet_def)

lemma quiet_arrived: "quiet (s\<lparr>adapter := a\<rparr>) ((log l x s)\<lparr>adapter := a\<rparr>)"
  by (simp add: quiet_def publications_def effect_defs)

lemma classInfoPublication_cong:
  "adapter s1 = adapter s \<Longrightarrow> baseTopic s1 = baseTopic s \<Longrightarrow> qos s1 = qos s
   \<Longrightarrow> classInfoPublication ops c s1 = classInfoPublication ops c s"
  by (simp add: classInfoPublication_def classInfo_def classInfoTopic_def)

lemma classInfoPublication_quiet:
  "quiet s s1 \<Longrightarrow> classInfoPublication ops c s1 = classInfoPublication ops c s"
  using classInfoPublication_cong[of s1 s ops c] by (simp add: quiet_def)

lemma publishClassInfoMessage_frame:
  "qos (publishClassInfoMessage ops c s) = qos s"
  "adapter (publishClassInfoMessage ops c s) = adapter s"
  "baseTopic (publishClassInfoMessage ops c s) = baseTopic s"
  "publications (trace (publishClassInfoMessage ops c s)) = publications (trace s) @ classInfoPublication ops c s"
  by (simp_all add: publishClassInfoMessage_def classInfoPublication_def JSON_stringify_def
      publications_def effect_defs)

lemma mqttPublish_frame:
  "qos (mqttPublish t x r s) = qos s"
  "adapter (mqttPublish t x r s) = adapter s"
  "baseTopic (mqttPublish t x r s) = baseTopic s"
  "publications (trace (mqttPublish t x r s)) = publications (trace s) @ [Publish t x (qos s) r]"
  by (simp_all add: publications_def effect_defs)

lemma publications_log: "publications (trace (log l x s)) = publications (trace s)"
  by (simp add: publications_def effect_defs)

lemma serializeReply_Inr:
  assumes "serializeReply json s = Inr (json3, msg, s2)"
  shows "replyEnvelope json = Some json3 \<and> msg = JsonText (JObj json3) \<and> quiet s s2"
proof (cases "replyEnvelope json")
  case None
  then show ?thesis using assms by (simp add: serializeReply_eq)
next
  case (Some j)
  then show ?thesis using assms by (auto simp add: serializeReply_eq quiet_refl quiet_log)
qed

lemma serializeReply_Inl:
  assumes "serializeReply json s = Inl (err, s2)"
  shows "replyEnvelope json = None \<and> quiet s s2"
proof (cases "replyEnvelope json")
  case None
  then show ?thesis using assms quiet_log by (auto simp add: serializeReply_eq)
next
  case (Some j)
  then show ?thesis using assms by (simp add: serializeReply_eq)
qed

section \<open>The outcome of an RPC message\<close>

lemma rpc_raised:
  assumes tk: "js_split CHR ''/'' topic = [d, a, c, i, m]"
    and r: "handleMessage_try ops topic (Json json) s = Inl (err, s1)"
  shows "publications (trace s1) = publications (trace s)"
proof -
  obtain res a' where cl: "call ops (adapter s) (prepareRpc c i m json) = (res, a')"
    by (cases "call ops (adapter s) (prepareRpc c i m json)")
  let ?s0 = "(log Debug (''Message arrived with topic: '' @ topic @ '' and payload:'') s)\<lparr>adapter := a'\<rparr>"
  have p0: "publications (trace ?s0) = publications (trace s)"
    by (simp add: publications_def effect_defs)
  show ?thesis
  proof (cases res)
    case (Inl e)
    then show ?thesis using r p0 by (simp add: handleMessage_try_rpc[OF tk] cl)
  next
    case (Inr json2)
    show ?thesis
    proof (cases "lifecycle m c i json2 ?s0")
      case (Inl x)
      then have "s1 = ?s0"
        using r Inr lifecycle_Inl[of m c i json2 ?s0 "fst x" "snd x"]
        by (simp add: handleMessage_try_rpc[OF tk] cl)
      then show ?thesis using p0 by simp
    next
      case lc: (Inr fs)
      obtain flag t where fs: "fs = (flag, t)" by (cases fs)
      have q: "quiet ?s0 t" using lc fs lifecycle_Inr by blast
      show ?thesis
      proof (cases "serializeReply json2 t")
        case (Inl x)
        then have "quiet t s1"
          using r Inr lc fs serializeReply_Inl[of json2 t "fst x" "snd x"]
          by (simp add: handleMessage_try_rpc[OF tk] cl)
        then show ?thesis using q p0 by (simp add: quiet_def)
      next
        case sr: (Inr y)
        then show ?thesis
          using r Inr lc fs by (simp add: handleMessage_try_rpc[OF tk] cl split: prod.splits)
      qed
    qed
  qed
qed

lemma rpc_outcome:
  assumes tk: "js_split CHR ''/'' topic = [d, a, c, i, m]"
    and cl: "call ops (adapter s) (prepareRpc c i m json) = (Inr json2, a')"
    and lc: "lifecycle m c i json2
               ((log Debug (''Message arrived with topic: '' @ topic @ '' and payload:'') s)\<lparr>adapter := a'\<rparr>)
             = Inr (flag, s1)"
    and re: "replyEnvelope json2 = Some json3"
  shows "\<exists>s'. handleMessage_try ops topic (Json json) s = Inr s' \<and>
          publications (trace s') =
            publications (trace s)
            @ (if flag \<and> m = ''__delete__'' then classInfoPublication ops c (s\<lparr>adapter := a'\<rparr>) else [])
            @ [Publish (get_prop ''sender'' json2) (JsonText (JObj json3)) (qos s) False]
            @ (if flag \<and> m = ''__createNamed__'' then classInfoPublication ops c (s\<lparr>adapter := a'\<rparr>) else [])"
proof -
  let ?s0 = "(log Debug (''Message arrived with topic: '' @ topic @ '' and payload:'') s)\<lparr>adapter := a'\<rparr>"
  have q0: "quiet (s\<lparr>adapter := a'\<rparr>) ?s0" by (rule quiet_arrived)
  have q1: "quiet ?s0 s1" using lc lifecycle_Inr by blast
  obtain s2 where sr: "serializeReply json2 s1 = Inr (json3, JsonText (JObj json3), s2)" and q2: "quiet s1 s2"
    using re by (auto simp: serializeReply_eq quiet_refl quiet_log)
  have q: "quiet (s\<lparr>adapter := a'\<rparr>) s2" using q0 q1 q2 quiet_trans by blast
  have ci: "classInfoPublication ops c s2 = classInfoPublication ops c (s\<lparr>adapter := a'\<rparr>)"
    using q by (rule classInfoPublication_quiet)
  have qs: "qos s2 = qos s" and ps: "publications (trace s2) = publications (trace s)"
    using q by (simp_all add: quiet_def)
  have sd: "get_prop ''sender'' json3 = get_prop ''sender'' json2"
    using re by (rule replyEnvelope_sender)
  have ci2: "classInfoPublication ops c (mqttPublish (get_prop ''sender'' json2) (JsonText (JObj json3)) False s2)
             = classInfoPublication ops c (s\<lparr>adapter := a'\<rparr>)"
    using q classInfoPublication_cong[of "mqttPublish (get_prop ''sender'' json2) (JsonText (JObj json3)) False s2" "s\<lparr>adapter := a'\<rparr>" ops c]
    by (simp add: mqttPublish_frame quiet_def)
  show ?thesis
    using lc sr
    by (simp add: handleMessage_try_rpc[OF tk] cl sd publishClassInfoMessage_frame mqttPublish_frame
        ci ci2 qs ps)
qed

lemma replies_classInfoPublication: "filter is_reply (classInfoPublication ops c s) = []"
  by (simp add: classInfoPublication_def)

lemma lifecycle_total:
  assumes "get_prop ''data'' json = Some (JObj dat)"
  shows "\<exists>fs. lifecycle m c i json s = Inr fs"
proof (cases "lifecycle m c i json s")
  case (Inl x)
  then have False
    using assms unfolding lifecycle_def by (simp split: if_splits)
  then show ?thesis ..
next
  case (Inr fs)
  then show ?thesis by blast
qed

lemma unregisterNamed_found:
  "fst (unregisterNamed visited rest v c f s) = (f \<or> list_ex (\<lambda>p. Set_has v (snd p)) rest)"
proof (induction rest arbitrary: visited f)
  case Nil
  show ?case by simp
next
  case (Cons p rest)
  show ?case
    using Cons.IH[of "visited @ [(fst p, Set_delete v (snd p))]" True] Cons.IH[of "visited @ [p]" f]
    by (simp add: Set_length_def)
qed

lemma unregisterInstance_fst:
  "fst (unregisterInstance v c s) =
     (\<not> (case Map_get c (unnamedInstances s) of None \<Rightarrow> False | Some e \<Rightarrow> Set_has v e)
      \<and> hasNamedInstance v s)"
  using unregisterNamed_found[of "[]" "namedInstances s" v c False s]
  by (auto simp: unregisterInstance_def hasNamedInstance_def Let_def split: prod.splits)

lemma unregisterInstance_fst_cong:
  "unnamedInstances s1 = unnamedInstances s \<Longrightarrow> namedInstances s1 = namedInstances s
   \<Longrightarrow> fst (unregisterInstance v c s1) = fst (unregisterInstance v c s)"
  by (simp add: unregisterInstance_fst hasNamedInstance_def)

lemma lifecycle_createNamed:
  assumes "get_prop ''data'' json = Some (JObj dat)"
  shows "\<exists>s1. lifecycle ''__createNamed__'' c i json s = Inr (\<not> hasNamedInstance (get_prop ''r'' dat) s, s1)"
  using assms by (simp add: lifecycle_def)

lemma lifecycle_delete:
  assumes "get_prop ''data'' json = Some (JObj dat)"
  shows "\<exists>s1. lifecycle ''__delete__'' c i json s =
           Inr (fst (unregisterInstance (get_prop ''_1'' dat) (get_prop ''sender'' json) s), s1)"
proof -
  obtain f t where u: "unregisterInstance (get_prop ''_1'' dat) (get_prop ''sender'' json)
               (unsubscribeMethodsOfDeletedInstance c (Some (JStr i)) s) = (f, t)"
    by (cases "unregisterInstance (get_prop ''_1'' dat) (get_prop ''sender'' json)
               (unsubscribeMethodsOfDeletedInstance c (Some (JStr i)) s)")
  have "fst (unregisterInstance (get_prop ''_1'' dat) (get_prop ''sender'' json)
               (unsubscribeMethodsOfDeletedInstance c (Some (JStr i)) s))
        = fst (unregisterInstance (get_prop ''_1'' dat) (get_prop ''sender'' json) s)"
    by (rule unregisterInstance_fst_cong)
       (simp_all add: unsubscribeMethodsOfDeletedInstance_def effect_defs)
  then have f: "f = fst (unregisterInstance (get_prop ''_1'' dat) (get_prop ''sender'' json) s)"
    using u by simp
  show ?thesis
    using assms by (simp add: lifecycle_def u f[symmetric])
qed

lemma handleMessage_Inr: "handleMessage_try ops topic data s = Inr s1 \<Longrightarrow> handleMessage ops topic data s = s1"
  by (simp add: handleMessage_def)

lemma handleMessage_Inl:
  "handleMessage_try ops topic data s = Inl (err, s1)
   \<Longrightarrow> handleMessage ops topic data s = log Err (''Problem while handling incoming message: '' @ message err) s1"
  by (simp add: handleMessage_def)

section \<open>Replies\<close>






text \<open>
  C8, as amended. When the adapter's envelope (with an object as \<^verbatim>\<open>data\<close>) does not
  serialize: if it serializes once \<^verbatim>\<open>data.r\<close> is replaced by the sentinel, the reply
  with \<^verbatim>\<open>data.r = '__vrpc::not-serializable__'\<close> is published, once, to the sender;
  otherwise nothing is published.
\<close>

theorem sentinel_replaces_unserializable_result:
  assumes tk: "js_split CHR ''/'' topic = [d, a, c, i, m]"
    and cl: "call ops (adapter s) (prepareRpc c i m json) = (Inr json2, a')"
    and dt: "get_prop ''data'' json2 = Some (JObj dat)"
    and ns: "\<not> serializable (JObj json2)"
  shows "if serializable (JObj (withSentinel json2))
         then replies (trace (handleMessage ops topic (Json json) s)) =
                replies (trace s)
                @ [Publish (get_prop ''sender'' json2) (JsonText (JObj (withSentinel json2))) (qos s) False]
              \<and> read_member (get_prop ''data'' (withSentinel json2)) ''r''
                  = Inr (Some (JStr ''__vrpc::not-serializable__''))
         else publications (trace (handleMessage ops topic (Json json) s)) = publications (trace s)"
proof -
  let ?s0 = "(log Debug (''Message arrived with topic: '' @ topic @ '' and payload:'') s)"
  obtain fs where "lifecycle m c i json2 (?s0\<lparr>adapter := a'\<rparr>) = Inr fs"
    using lifecycle_total[OF dt] by blast
  then obtain flag s1 where lc: "lifecycle m c i json2 (?s0\<lparr>adapter := a'\<rparr>) = Inr (flag, s1)"
    by (cases fs) simp
  show ?thesis
  proof (cases "serializable (JObj (withSentinel json2))")
    case True
    then have re: "replyEnvelope json2 = Some (withSentinel json2)"
      using ns by (simp add: replyEnvelope_def)
    obtain t where t: "handleMessage_try ops topic (Json json) s = Inr t"
      and p: "publications (trace t) =
            publications (trace s)
            @ (if flag \<and> m = ''__delete__'' then classInfoPublication ops c (s\<lparr>adapter := a'\<rparr>) else [])
            @ [Publish (get_prop ''sender'' json2) (JsonText (JObj (withSentinel json2))) (qos s) False]
            @ (if flag \<and> m = ''__createNamed__'' then classInfoPublication ops c (s\<lparr>adapter := a'\<rparr>) else [])"
      using rpc_outcome[OF tk cl lc re] by blast
    have "replies (trace t) =
            replies (trace s)
            @ [Publish (get_prop ''sender'' json2) (JsonText (JObj (withSentinel json2))) (qos s) False]"
      unfolding replies_publications p
      by (simp add: replies_classInfoPublication)
    moreover have "read_member (get_prop ''data'' (withSentinel json2)) ''r''
                   = Inr (Some (JStr ''__vrpc::not-serializable__''))"
      using dt by (simp add: withSentinel_def get_prop_set_prop)
    ultimately show ?thesis
      using True by (simp add: handleMessage_Inr[OF t])
  next
    case False
    then have re: "replyEnvelope json2 = None"
      using ns by (simp add: replyEnvelope_def)
    obtain x where x: "handleMessage_try ops topic (Json json) s = Inl x"
      using lc re by (simp add: handleMessage_try_rpc[OF tk] cl serializeReply_eq)
    obtain err s1 where xe: "x = (err, s1)" by (cases x)
    have "publications (trace s1) = publications (trace s)"
      using rpc_raised[OF tk] x xe by blast
    then show ?thesis
      using False x xe by (simp add: handleMessage_Inl publications_log)
  qed
qed

text \<open>Witness of C8: a result that is a BigInt is replaced by the sentinel and sent.\<close>

theorem sentinel_witness:
  "js_split CHR ''/'' ''d/a/Foo/i1/big'' = [''d'', ''a'', ''Foo'', ''i1'', ''big'']
   \<and> \<not> serializable (JObj [(''data'', JObj [(''r'', JBigInt 7)]), (''sender'', JStr ''c''),
                            (''context'', JStr ''i1''), (''method'', JStr ''big'')])
   \<and> replies (trace (handleMessage (adapter_with (returning [(''r'', JBigInt 7)])) ''d/a/Foo/i1/big''
         (Json [(''data'', JObj []), (''sender'', JStr ''c'')]) (agent0 ())))
     = [Publish (Some (JStr ''c''))
          (JsonText (JObj [(''data'', JObj [(''r'', JStr ''__vrpc::not-serializable__'')]),
                           (''sender'', JStr ''c''), (''context'', JStr ''i1''),
                           (''method'', JStr ''big'')])) 1 False]"
proof -
  have tk: "js_split CHR ''/'' ''d/a/Foo/i1/big'' = [''d'', ''a'', ''Foo'', ''i1'', ''big'']"
    by simp
  have cl: "call (adapter_with (returning [(''r'', JBigInt 7)])) (adapter (agent0 ()))
              (prepareRpc ''Foo'' ''i1'' ''big'' [(''data'', JObj []), (''sender'', JStr ''c'')])
            = (Inr [(''data'', JObj [(''r'', JBigInt 7)]), (''sender'', JStr ''c''),
                    (''context'', JStr ''i1''), (''method'', JStr ''big'')], ())"
    by (simp add: adapter_with_def returning_def prepareRpc_def)
  have dt: "get_prop ''data'' [(''data'', JObj [(''r'', JBigInt 7)]), (''sender'', JStr ''c''),
                    (''context'', JStr ''i1''), (''method'', JStr ''big'')] = Some (JObj [(''r'', JBigInt 7)])"
    by (simp add: get_prop_def)
  have ns: "\<not> serializable (JObj [(''data'', JObj [(''r'', JBigInt 7)]), (''sender'', JStr ''c''),
                            (''context'', JStr ''i1''), (''method'', JStr ''big'')])"
    by simp
  show ?thesis
    using sentinel_replaces_unserializable_result[OF tk cl dt ns] tk ns
    by (simp add: obs_defs get_prop_def agent0_def)
qed

text \<open>
  Counterexample to C8 as stated: the method has stored a BigInt in its object
  argument \<^verbatim>\<open>_1\<close>. Serialization fails, also after \<^verbatim>\<open>data.r\<close> is replaced, and the
  caller is not answered.
\<close>

theorem unserializable_argument_gets_no_reply:
  "\<not> serializable (JObj [(''data'', JObj [(''_1'', JObj [(''big'', JBigInt 7)]), (''r'', JNum 5)]),
                          (''sender'', JStr ''c''), (''context'', JStr ''i1''), (''method'', JStr ''fill'')])
   \<and> publications (trace (handleMessage
         (adapter_with (returning [(''_1'', JObj [(''big'', JBigInt 7)]), (''r'', JNum 5)]))
         ''d/a/Foo/i1/fill''
         (Json [(''data'', JObj [(''_1'', JObj [])]), (''sender'', JStr ''c'')])
         (agent0 ()))) = []"
  by (simp add: run_defs publications_def)

text \<open>
  C5. Identifiers are primitive values (the protocol's are strings). When a
  \<^verbatim>\<open>__createNamed__\<close> whose result the agent does not yet track as a named instance is
  answered, the publications of the handler are the reply and then the class info; when
  a \<^verbatim>\<open>__delete__\<close> for which \<^verbatim>\<open>_unregisterInstance\<close> reports a named instance is
  answered, they are the class info and then the reply. (The class info is
  \<open>classInfoPublication\<close>: one retained publication, or none if the document does not
  serialize.)
\<close>

theorem classInfo_after_createNamed_before_delete:
  "(js_split CHR ''/'' topic = [d, a, c, i, ''__createNamed__'']
    \<and> call ops (adapter s) (prepareRpc c i ''__createNamed__'' json) = (Inr json2, a')
    \<and> get_prop ''data'' json2 = Some (JObj dat)
    \<and> primitive (get_prop ''r'' dat)
    \<and> \<not> hasNamedInstance (get_prop ''r'' dat) s
    \<and> replyEnvelope json2 = Some json3
    \<longrightarrow> publications (trace (handleMessage ops topic (Json json) s)) =
          publications (trace s)
          @ [Publish (get_prop ''sender'' json2) (JsonText (JObj json3)) (qos s) False]
          @ classInfoPublication ops c (s\<lparr>adapter := a'\<rparr>))
   \<and> (js_split CHR ''/'' topic = [d, a, c, i, ''__delete__'']
    \<and> call ops (adapter s) (prepareRpc c i ''__delete__'' json) = (Inr json2, a')
    \<and> get_prop ''data'' json2 = Some (JObj dat)
    \<and> primitive (get_prop ''_1'' dat) \<and> primitive (get_prop ''sender'' json2)
    \<and> fst (unregisterInstance (get_prop ''_1'' dat) (get_prop ''sender'' json2) s)
    \<and> replyEnvelope json2 = Some json3
    \<longrightarrow> publications (trace (handleMessage ops topic (Json json) s)) =
          publications (trace s)
          @ classInfoPublication ops c (s\<lparr>adapter := a'\<rparr>)
          @ [Publish (get_prop ''sender'' json2) (JsonText (JObj json3)) (qos s) False])"
proof (intro conjI impI; elim conjE)
  let ?s0 = "(log Debug (''Message arrived with topic: '' @ topic @ '' and payload:'') s)\<lparr>adapter := a'\<rparr>"
  assume tk: "js_split CHR ''/'' topic = [d, a, c, i, ''__createNamed__'']"
    and cl: "call ops (adapter s) (prepareRpc c i ''__createNamed__'' json) = (Inr json2, a')"
    and dt: "get_prop ''data'' json2 = Some (JObj dat)"
    and new: "\<not> hasNamedInstance (get_prop ''r'' dat) s"
    and re: "replyEnvelope json2 = Some json3"
  have hn: "hasNamedInstance (get_prop ''r'' dat) ?s0 = hasNamedInstance (get_prop ''r'' dat) s"
    by (simp add: hasNamedInstance_def effect_defs)
  obtain s1 where "lifecycle ''__createNamed__'' c i json2 ?s0
                   = Inr (\<not> hasNamedInstance (get_prop ''r'' dat) ?s0, s1)"
    using lifecycle_createNamed[OF dt] by blast
  then have lc: "lifecycle ''__createNamed__'' c i json2 ?s0 = Inr (True, s1)"
    using new by (simp only: hn simp_thms)
  obtain s' where t: "handleMessage_try ops topic (Json json) s = Inr s'"
    and p: "publications (trace s') =
            publications (trace s)
            @ (if True \<and> ''__createNamed__'' = ''__delete__'' then classInfoPublication ops c (s\<lparr>adapter := a'\<rparr>) else [])
            @ [Publish (get_prop ''sender'' json2) (JsonText (JObj json3)) (qos s) False]
            @ (if True \<and> ''__createNamed__'' = ''__createNamed__'' then classInfoPublication ops c (s\<lparr>adapter := a'\<rparr>) else [])"
    using rpc_outcome[OF tk cl lc re] by blast
  show "publications (trace (handleMessage ops topic (Json json) s)) =
          publications (trace s)
          @ [Publish (get_prop ''sender'' json2) (JsonText (JObj json3)) (qos s) False]
          @ classInfoPublication ops c (s\<lparr>adapter := a'\<rparr>)"
    using p by (simp add: handleMessage_Inr[OF t])
next
  let ?s0 = "(log Debug (''Message arrived with topic: '' @ topic @ '' and payload:'') s)\<lparr>adapter := a'\<rparr>"
  assume tk: "js_split CHR ''/'' topic = [d, a, c, i, ''__delete__'']"
    and cl: "call ops (adapter s) (prepareRpc c i ''__delete__'' json) = (Inr json2, a')"
    and dt: "get_prop ''data'' json2 = Some (JObj dat)"
    and named: "fst (unregisterInstance (get_prop ''_1'' dat) (get_prop ''sender'' json2) s)"
    and re: "replyEnvelope json2 = Some json3"
  have hn: "fst (unregisterInstance (get_prop ''_1'' dat) (get_prop ''sender'' json2) ?s0)
            = fst (unregisterInstance (get_prop ''_1'' dat) (get_prop ''sender'' json2) s)"
    by (rule unregisterInstance_fst_cong) (simp_all add: effect_defs)
  obtain s1 where "lifecycle ''__delete__'' c i json2 ?s0
                   = Inr (fst (unregisterInstance (get_prop ''_1'' dat) (get_prop ''sender'' json2) ?s0), s1)"
    using lifecycle_delete[OF dt] by blast
  then have lc: "lifecycle ''__delete__'' c i json2 ?s0 = Inr (True, s1)"
    using named by (simp only: hn simp_thms)
  obtain s' where t: "handleMessage_try ops topic (Json json) s = Inr s'"
    and p: "publications (trace s') =
            publications (trace s)
            @ (if True \<and> ''__delete__'' = ''__delete__'' then classInfoPublication ops c (s\<lparr>adapter := a'\<rparr>) else [])
            @ [Publish (get_prop ''sender'' json2) (JsonText (JObj json3)) (qos s) False]
            @ (if True \<and> ''__delete__'' = ''__createNamed__'' then classInfoPublication ops c (s\<lparr>adapter := a'\<rparr>) else [])"
    using rpc_outcome[OF tk cl lc re] by blast
  show "publications (trace (handleMessage ops topic (Json json) s)) =
          publications (trace s)
          @ classInfoPublication ops c (s\<lparr>adapter := a'\<rparr>)
          @ [Publish (get_prop ''sender'' json2) (JsonText (JObj json3)) (qos s) False]"
    using p by (simp add: handleMessage_Inr[OF t])
qed

text \<open>Witness of C5: one run of each kind, with both publications in the stated order.\<close>

theorem classInfo_order_witness:
  "publications (trace (handleMessage
       (listing [''foo1''] (adapter_with (returning [(''_1'', JStr ''foo1''), (''r'', JStr ''foo1'')])))
       ''d/a/Foo/__static__/__createNamed__''
       (Json [(''data'', JObj [(''_1'', JStr ''foo1'')]), (''sender'', JStr ''c'')])
       (agent0 ())))
   = [Publish (Some (JStr ''c''))
        (JsonText (JObj [(''data'', JObj [(''_1'', JStr ''foo1''), (''r'', JStr ''foo1'')]),
                         (''sender'', JStr ''c''), (''context'', JStr ''Foo''),
                         (''method'', JStr ''__createNamed__'')])) 1 False,
      Publish (Some (JStr ''d/a/Foo/__classInfo__''))
        (JsonText (JObj [(''className'', JStr ''Foo''), (''instances'', JArr [JStr ''foo1'']),
                         (''memberFunctions'', JArr []), (''staticFunctions'', JArr []),
                         (''meta'', JObj [])])) 1 True]
   \<and> publications (trace (handleMessage
       (adapter_with (returning [(''_1'', JStr ''foo1''), (''r'', JBool True)]))
       ''d/a/Foo/__static__/__delete__''
       (Json [(''data'', JObj [(''_1'', JStr ''foo1'')]), (''sender'', JStr ''c'')])
       ((agent0 ())\<lparr>namedInstances := [(Some (JStr ''c''), [Some (JStr ''foo1'')])]\<rparr>)))
   = [Publish (Some (JStr ''d/a/Foo/__classInfo__''))
        (JsonText (JObj [(''className'', JStr ''Foo''), (''instances'', JArr []),
                         (''memberFunctions'', JArr []), (''staticFunctions'', JArr []),
                         (''meta'', JObj [])])) 1 True,
      Publish (Some (JStr ''c''))
        (JsonText (JObj [(''data'', JObj [(''_1'', JStr ''foo1''), (''r'', JBool True)]),
                         (''sender'', JStr ''c''), (''context'', JStr ''Foo''),
                         (''method'', JStr ''__delete__'')])) 1 False]"
proof -
  let ?json = "[(''data'', JObj [(''_1'', JStr ''foo1'')]), (''sender'', JStr ''c'')]"
  let ?opsA = "listing [''foo1''] (adapter_with (returning [(''_1'', JStr ''foo1''), (''r'', JStr ''foo1'')]))
                 :: unit adapter_ops"
  let ?datA = "[(''_1'', JStr ''foo1''), (''r'', JStr ''foo1'')]"
  let ?jsonA = "[(''data'', JObj ?datA), (''sender'', JStr ''c''), (''context'', JStr ''Foo''),
                 (''method'', JStr ''__createNamed__'')]"
  let ?opsB = "adapter_with (returning [(''_1'', JStr ''foo1''), (''r'', JBool True)]) :: unit adapter_ops"
  let ?datB = "[(''_1'', JStr ''foo1''), (''r'', JBool True)]"
  let ?jsonB = "[(''data'', JObj ?datB), (''sender'', JStr ''c''), (''context'', JStr ''Foo''),
                 (''method'', JStr ''__delete__'')]"
  let ?sB = "(agent0 ())\<lparr>namedInstances := [(Some (JStr ''c''), [Some (JStr ''foo1'')])]\<rparr>"
  have created: "js_split CHR ''/'' ''d/a/Foo/__static__/__createNamed__''
           = [''d'', ''a'', ''Foo'', ''__static__'', ''__createNamed__'']
         \<and> call ?opsA (adapter (agent0 ())) (prepareRpc ''Foo'' ''__static__'' ''__createNamed__'' ?json)
           = (Inr ?jsonA, ())
         \<and> get_prop ''data'' ?jsonA = Some (JObj ?datA)
         \<and> primitive (get_prop ''r'' ?datA)
         \<and> \<not> hasNamedInstance (get_prop ''r'' ?datA) (agent0 ())
         \<and> replyEnvelope ?jsonA = Some ?jsonA"
    by (simp add: adapter_with_def listing_def returning_def prepareRpc_def get_prop_def
        replyEnvelope_def hasNamedInstance_def agent0_def)
  have deleted: "js_split CHR ''/'' ''d/a/Foo/__static__/__delete__''
           = [''d'', ''a'', ''Foo'', ''__static__'', ''__delete__'']
         \<and> call ?opsB (adapter ?sB) (prepareRpc ''Foo'' ''__static__'' ''__delete__'' ?json)
           = (Inr ?jsonB, ())
         \<and> get_prop ''data'' ?jsonB = Some (JObj ?datB)
         \<and> primitive (get_prop ''_1'' ?datB) \<and> primitive (get_prop ''sender'' ?jsonB)
         \<and> fst (unregisterInstance (get_prop ''_1'' ?datB) (get_prop ''sender'' ?jsonB) ?sB)
         \<and> replyEnvelope ?jsonB = Some ?jsonB"
    by (simp add: adapter_with_def returning_def prepareRpc_def get_prop_def replyEnvelope_def
        unregisterInstance_fst hasNamedInstance_def same_value_def Set_has_def agent0_def)
  have A: "publications (trace (handleMessage ?opsA ''d/a/Foo/__static__/__createNamed__'' (Json ?json) (agent0 ())))
        = publications (trace (agent0 ()))
          @ [Publish (get_prop ''sender'' ?jsonA) (JsonText (JObj ?jsonA)) (qos (agent0 ())) False]
          @ classInfoPublication ?opsA ''Foo'' ((agent0 ())\<lparr>adapter := ()\<rparr>)"
    using classInfo_after_createNamed_before_delete[THEN conjunct1, THEN mp, OF created] .
  have B: "publications (trace (handleMessage ?opsB ''d/a/Foo/__static__/__delete__'' (Json ?json) ?sB))
        = publications (trace ?sB)
          @ classInfoPublication ?opsB ''Foo'' (?sB\<lparr>adapter := ()\<rparr>)
          @ [Publish (get_prop ''sender'' ?jsonB) (JsonText (JObj ?jsonB)) (qos ?sB) False]"
    using classInfo_after_createNamed_before_delete[THEN conjunct2, THEN mp, OF deleted] .
  show ?thesis
    using A B
    by (simp add: publications_def classInfoPublication_def classInfo_def classInfoTopic_def
        adapter_with_def listing_def agent0_def get_prop_def)
qed

section \<open>Failed lookups\<close>

lemma withError_data:
  "get_prop ''data'' (withError msg json)
   = Some (JObj (set_prop ''e'' (JStr msg)
                   (case get_prop ''data'' json of Some (JObj dat) \<Rightarrow> dat | _ \<Rightarrow> [])))"
  by (simp add: withError_def get_prop_set_prop)

lemma withError_e: "read_member (get_prop ''data'' (withError msg json)) ''e'' = Inr (Some (JStr msg))"
  by (simp add: withError_data get_prop_set_prop)

text \<open>
  C4. In the adapter's lookup as the specification words it, dispatching an envelope
  whose context is neither a class nor an instance returns the envelope with \<^verbatim>\<open>data.e\<close>
  set to \<^verbatim>\<open>Could not find context: <name>\<close>, and dispatching one whose method is not in
  the table of its context returns it with \<^verbatim>\<open>data.e\<close> set to
  \<^verbatim>\<open>Could not find function: <name>\<close>; nothing is thrown. When the adapter returns such
  an envelope and it serializes, the agent publishes it, once, to the envelope's
  \<^verbatim>\<open>sender\<close>.
\<close>

theorem failed_lookup_sets_e_and_returns:
  "(map_of (classes reg) (tmpl (get_prop ''context'' json)) = None
    \<and> map_of (instances reg) (tmpl (get_prop ''context'' json)) = None
    \<longrightarrow> VrpcAdapter_call dispatch reg json
          = (Inr (withError (''Could not find context: '' @ tmpl (get_prop ''context'' json)) json), reg)
        \<and> read_member
            (get_prop ''data''
               (withError (''Could not find context: '' @ tmpl (get_prop ''context'' json)) json)) ''e''
          = Inr (Some (JStr (''Could not find context: '' @ tmpl (get_prop ''context'' json)))))
   \<and> ((map_of (classes reg) (tmpl (get_prop ''context'' json)) = Some fs
        \<or> map_of (classes reg) (tmpl (get_prop ''context'' json)) = None
          \<and> map_of (instances reg) (tmpl (get_prop ''context'' json)) = Some fs)
       \<and> tmpl (get_prop ''method'' json) \<notin> set fs
    \<longrightarrow> VrpcAdapter_call dispatch reg json
          = (Inr (withError (''Could not find function: '' @ tmpl (get_prop ''method'' json)) json), reg)
        \<and> read_member
            (get_prop ''data''
               (withError (''Could not find function: '' @ tmpl (get_prop ''method'' json)) json)) ''e''
          = Inr (Some (JStr (''Could not find function: '' @ tmpl (get_prop ''method'' json)))))
   \<and> (js_split CHR ''/'' topic = [d, a, c, i, m]
       \<and> call ops (adapter s) (prepareRpc c i m env) = (Inr (withError msg env2), a')
       \<and> serializable (JObj (withError msg env2))
    \<longrightarrow> replies (trace (handleMessage ops topic (Json env) s))
          = replies (trace s)
            @ [Publish (get_prop ''sender'' env2) (JsonText (JObj (withError msg env2))) (qos s) False])"
proof (intro conjI impI; (elim conjE)?)
  assume tk: "js_split CHR ''/'' topic = [d, a, c, i, m]"
    and cl: "call ops (adapter s) (prepareRpc c i m env) = (Inr (withError msg env2), a')"
    and ser: "serializable (JObj (withError msg env2))"
  let ?s0 = "(log Debug (''Message arrived with topic: '' @ topic @ '' and payload:'') s)"
  obtain fs' where "lifecycle m c i (withError msg env2) (?s0\<lparr>adapter := a'\<rparr>) = Inr fs'"
    using lifecycle_total[OF withError_data] by blast
  then obtain flag s1 where lc: "lifecycle m c i (withError msg env2) (?s0\<lparr>adapter := a'\<rparr>) = Inr (flag, s1)"
    by (cases fs') simp
  have re: "replyEnvelope (withError msg env2) = Some (withError msg env2)"
    using ser by (simp add: replyEnvelope_def)
  obtain t where t: "handleMessage_try ops topic (Json env) s = Inr t"
    and p: "publications (trace t) =
          publications (trace s)
          @ (if flag \<and> m = ''__delete__'' then classInfoPublication ops c (s\<lparr>adapter := a'\<rparr>) else [])
          @ [Publish (get_prop ''sender'' (withError msg env2)) (JsonText (JObj (withError msg env2))) (qos s) False]
          @ (if flag \<and> m = ''__createNamed__'' then classInfoPublication ops c (s\<lparr>adapter := a'\<rparr>) else [])"
    using rpc_outcome[OF tk cl lc re] by blast
  have sd: "get_prop ''sender'' (withError msg env2) = get_prop ''sender'' env2"
    by (simp add: withError_def get_prop_set_prop)
  have "replies (trace t) =
          replies (trace s)
          @ [Publish (get_prop ''sender'' env2) (JsonText (JObj (withError msg env2))) (qos s) False]"
    unfolding replies_publications p sd
    by (simp add: replies_classInfoPublication)
  then show "replies (trace (handleMessage ops topic (Json env) s))
          = replies (trace s)
            @ [Publish (get_prop ''sender'' env2) (JsonText (JObj (withError msg env2))) (qos s) False]"
    by (simp add: handleMessage_Inr[OF t])
qed (auto simp add: VrpcAdapter_call_def withError_e)

text \<open>
  Witness of C4: an envelope with an unknown context, one for a known instance without
  the method, and the agent answering the first with \<^verbatim>\<open>data.e\<close>.
\<close>

theorem failed_lookup_witness:
  "VrpcAdapter_call (returning [])
     \<lparr>classes = [(''TestClass'', [''__create__''])], instances = [(''i1'', [''hasEntry''])]\<rparr>
     [(''context'', JStr ''wrong''), (''method'', JStr ''not_there''), (''data'', JObj [])]
   = (Inr [(''context'', JStr ''wrong''), (''method'', JStr ''not_there''),
           (''data'', JObj [(''e'', JStr ''Could not find context: wrong'')])],
      \<lparr>classes = [(''TestClass'', [''__create__''])], instances = [(''i1'', [''hasEntry''])]\<rparr>)
   \<and> VrpcAdapter_call (returning [])
     \<lparr>classes = [(''TestClass'', [''__create__''])], instances = [(''i1'', [''hasEntry''])]\<rparr>
     [(''context'', JStr ''i1''), (''method'', JStr ''not_there''), (''data'', JObj [])]
   = (Inr [(''context'', JStr ''i1''), (''method'', JStr ''not_there''),
           (''data'', JObj [(''e'', JStr ''Could not find function: not_there'')])],
      \<lparr>classes = [(''TestClass'', [''__create__''])], instances = [(''i1'', [''hasEntry''])]\<rparr>)
   \<and> replies (trace (handleMessage (adapter_with (VrpcAdapter_call (returning [])))
         ''d/a/TestClass/wrong/not_there''
         (Json [(''data'', JObj []), (''sender'', JStr ''s'')])
         (agent0 \<lparr>classes = [(''TestClass'', [''__create__''])], instances = [(''i1'', [''hasEntry''])]\<rparr>)))
     = [Publish (Some (JStr ''s''))
          (JsonText (JObj [(''data'', JObj [(''e'', JStr ''Could not find context: wrong'')]),
                           (''sender'', JStr ''s''), (''context'', JStr ''wrong''),
                           (''method'', JStr ''not_there'')])) 1 False]"
proof -
  let ?reg = "\<lparr>classes = [(''TestClass'', [''__create__''])], instances = [(''i1'', [''hasEntry''])]\<rparr>"
  let ?wrong = "[(''context'', JStr ''wrong''), (''method'', JStr ''not_there''), (''data'', JObj [])]"
  let ?known = "[(''context'', JStr ''i1''), (''method'', JStr ''not_there''), (''data'', JObj [])]"
  let ?ops = "adapter_with (VrpcAdapter_call (returning []))"
  let ?env = "[(''data'', JObj []), (''sender'', JStr ''s'')]"
  let ?env2 = "[(''data'', JObj []), (''sender'', JStr ''s''), (''context'', JStr ''wrong''),
                (''method'', JStr ''not_there'')]"
  have no_context: "map_of (classes ?reg) (tmpl (get_prop ''context'' ?wrong)) = None
         \<and> map_of (instances ?reg) (tmpl (get_prop ''context'' ?wrong)) = None"
    by (simp add: get_prop_def)
  have no_function: "(map_of (classes ?reg) (tmpl (get_prop ''context'' ?known)) = Some [''hasEntry'']
          \<or> map_of (classes ?reg) (tmpl (get_prop ''context'' ?known)) = None
            \<and> map_of (instances ?reg) (tmpl (get_prop ''context'' ?known)) = Some [''hasEntry''])
         \<and> tmpl (get_prop ''method'' ?known) \<notin> set [''hasEntry'']"
    by (simp add: get_prop_def)
  have answered: "js_split CHR ''/'' ''d/a/TestClass/wrong/not_there''
           = [''d'', ''a'', ''TestClass'', ''wrong'', ''not_there'']
         \<and> call ?ops (adapter (agent0 ?reg)) (prepareRpc ''TestClass'' ''wrong'' ''not_there'' ?env)
           = (Inr (withError ''Could not find context: wrong'' ?env2), ?reg)
         \<and> serializable (JObj (withError ''Could not find context: wrong'' ?env2))"
    by (simp add: run_defs obs_defs VrpcAdapter_call_def Let_def)
  note t = failed_lookup_sets_e_and_returns
  have "VrpcAdapter_call (returning []) ?reg ?wrong
        = (Inr (withError (''Could not find context: '' @ tmpl (get_prop ''context'' ?wrong)) ?wrong), ?reg)"
    using t[THEN conjunct1, THEN mp, OF no_context, THEN conjunct1] .
  moreover have "VrpcAdapter_call (returning []) ?reg ?known
        = (Inr (withError (''Could not find function: '' @ tmpl (get_prop ''method'' ?known)) ?known), ?reg)"
    using t[THEN conjunct2, THEN conjunct1, THEN mp, OF no_function, THEN conjunct1] .
  moreover have "replies (trace (handleMessage ?ops ''d/a/TestClass/wrong/not_there'' (Json ?env) (agent0 ?reg)))
        = replies (trace (agent0 ?reg))
          @ [Publish (get_prop ''sender'' ?env2)
               (JsonText (JObj (withError ''Could not find context: wrong'' ?env2))) (qos (agent0 ?reg)) False]"
    using t[THEN conjunct2, THEN conjunct2, THEN mp, OF answered] .
  ultimately show ?thesis
    by (simp add: get_prop_def agent0_def withError_def replies_def)
qed

end
